theory Spec2Isabelle
  imports Main
begin

section \<open>JavaScript strings and loose values\<close>

text \<open>
  A JavaScript string is a sequence of UTF-16 code units; a code unit is a natural number
  below 65536. Literals of the source are written \<open>lit ''...''\<close>.
\<close>

type_synonym jsstring = "nat list"

definition lit :: "string \<Rightarrow> jsstring" where
  "lit s = map of_char s"

text \<open>
  Request fields are read from untyped JSON (\<^verbatim>\<open>request.body as any\<close>): a field is
  either absent (\<open>None\<close>, JavaScript's \<^verbatim>\<open>undefined\<close>) or a string.
  \<open>truthy\<close> is the test of \<^verbatim>\<open>!x\<close>, \<open>js_String\<close> is \<^verbatim>\<open>String(x)\<close> and
  \<open>js_or\<close> is \<^verbatim>\<open>a || b\<close>.
\<close>

fun truthy :: "jsstring option \<Rightarrow> bool" where
  "truthy None = False"
| "truthy (Some s) = (s \<noteq> [])"

fun js_String :: "jsstring option \<Rightarrow> jsstring" where
  "js_String None = lit ''undefined''"
| "js_String (Some s) = s"

definition js_or :: "jsstring option \<Rightarrow> jsstring option \<Rightarrow> jsstring option" where
  "js_or a b = (if truthy a then a else b)"

datatype error =
    TypeError | URIError | SyntaxError | InvalidCharacterError | InvalidGrantError
  | Thrown string

subsection \<open>String methods\<close>

text \<open>\<^verbatim>\<open>s.startsWith(p)\<close>, \<^verbatim>\<open>s.endsWith(p)\<close> and \<^verbatim>\<open>s.includes(p)\<close>.\<close>

fun js_startsWith :: "jsstring \<Rightarrow> jsstring \<Rightarrow> bool" where
  "js_startsWith s [] = True"
| "js_startsWith [] (p # ps) = False"
| "js_startsWith (c # cs) (p # ps) = (c = p \<and> js_startsWith cs ps)"

definition js_endsWith :: "jsstring \<Rightarrow> jsstring \<Rightarrow> bool" where
  "js_endsWith s p = js_startsWith (rev s) (rev p)"

fun js_includes :: "jsstring \<Rightarrow> jsstring \<Rightarrow> bool" where
  "js_includes [] p = (p = [])"
| "js_includes (c # cs) p = (js_startsWith (c # cs) p \<or> js_includes cs p)"

text \<open>The value of a hexadecimal digit.\<close>

definition hex_val :: "nat \<Rightarrow> nat option" where
  "hex_val c =
     (if 48 \<le> c \<and> c \<le> 57 then Some (c - 48)
      else if 65 \<le> c \<and> c \<le> 70 then Some (c - 55)
      else if 97 \<le> c \<and> c \<le> 102 then Some (c - 87)
      else None)"

subsection \<open>split, join and indexOf\<close>

text \<open>
  \<^verbatim>\<open>s.split(sep)\<close> for a separator of one code unit (the result is never empty),
  \<^verbatim>\<open>parts.join(sep)\<close>, and \<^verbatim>\<open>parts.indexOf(x)\<close>, which is -1 when \<open>x\<close> is no element.
\<close>

fun js_split :: "nat \<Rightarrow> jsstring \<Rightarrow> jsstring list" where
  "js_split sep [] = [[]]"
| "js_split sep (c # cs) =
     (if c = sep then [] # js_split sep cs
      else (case js_split sep cs of
              [] \<Rightarrow> [[c]]
            | p # ps \<Rightarrow> (c # p) # ps))"

fun js_join :: "nat \<Rightarrow> jsstring list \<Rightarrow> jsstring" where
  "js_join sep [] = []"
| "js_join sep [p] = p"
| "js_join sep (p # q # ps) = p @ sep # js_join sep (q # ps)"

fun indexOf :: "jsstring list \<Rightarrow> jsstring \<Rightarrow> int" where
  "indexOf [] x = - 1"
| "indexOf (y # ys) x =
     (if y = x then 0
      else (let i = indexOf ys x in if i = - 1 then - 1 else i + 1))"

subsection \<open>atob\<close>

text \<open>
  The forgiving base64 decoder of the HTML standard: ASCII whitespace is dropped, one or
  two trailing \<^verbatim>\<open>=\<close> are dropped when the length is a multiple of four, a length of
  4k+1 or a code unit outside the alphabet raises \<^verbatim>\<open>InvalidCharacterError\<close>, and
  leftover bits are discarded. The result has one code unit per decoded octet.
\<close>

definition b64_val :: "nat \<Rightarrow> nat option" where
  "b64_val c =
     (if 65 \<le> c \<and> c \<le> 90 then Some (c - 65)
      else if 97 \<le> c \<and> c \<le> 122 then Some (c - 71)
      else if 48 \<le> c \<and> c \<le> 57 then Some (c + 4)
      else if c = 43 then Some 62
      else if c = 47 then Some 63
      else None)"

definition ascii_whitespace :: "nat \<Rightarrow> bool" where
  "ascii_whitespace c = (c = 9 \<or> c = 10 \<or> c = 12 \<or> c = 13 \<or> c = 32)"

definition strip_padding :: "jsstring \<Rightarrow> jsstring" where
  "strip_padding d =
     (if length d mod 4 = 0 then
        (case rev d of
           a # b # r \<Rightarrow>
             if a = 61 \<and> b = 61 then rev r
             else if a = 61 then rev (b # r)
             else d
         | _ \<Rightarrow> d)
      else d)"

fun sextets :: "jsstring \<Rightarrow> nat list option" where
  "sextets [] = Some []"
| "sextets (c # cs) =
     (case b64_val c of
        None \<Rightarrow> None
      | Some v \<Rightarrow> map_option ((#) v) (sextets cs))"

fun octets_of_sextets :: "nat list \<Rightarrow> nat list" where
  "octets_of_sextets (a # b # c # d # r) =
     (a * 4 + b div 16) # ((b mod 16) * 16 + c div 4) # ((c mod 4) * 64 + d)
       # octets_of_sextets r"
| "octets_of_sextets [a, b, c] = [a * 4 + b div 16, (b mod 16) * 16 + c div 4]"
| "octets_of_sextets [a, b] = [a * 4 + b div 16]"
| "octets_of_sextets [a] = []"
| "octets_of_sextets [] = []"

definition atob :: "jsstring \<Rightarrow> error + jsstring" where
  "atob s =
     (let d = strip_padding (filter (\<lambda>c. \<not> ascii_whitespace c) s) in
      if length d mod 4 = 1 then Inl InvalidCharacterError
      else (case sextets d of
              None \<Rightarrow> Inl InvalidCharacterError
            | Some vs \<Rightarrow> Inr (octets_of_sextets vs)))"

subsection \<open>JSON.parse\<close>

text \<open>
  A JavaScript value as \<^verbatim>\<open>JSON.parse\<close> can produce it, and \<^verbatim>\<open>undefined\<close>. A number
  is kept as its text: its IEEE value is never computed here. An object is the list of its
  members in source order; when a key is repeated the last member is the property.
\<close>

datatype jsval =
    Undefined
  | Null
  | Bool bool
  | Num jsstring
  | Str jsstring
  | Arr "jsval list"
  | Obj "(jsstring \<times> jsval) list"

datatype 'a parsed = Parsed 'a jsstring | Malformed | OutOfFuel

definition json_ws :: "nat \<Rightarrow> bool" where
  "json_ws c = (c = 32 \<or> c = 9 \<or> c = 10 \<or> c = 13)"

definition skip_ws :: "jsstring \<Rightarrow> jsstring" where
  "skip_ws s = dropWhile json_ws s"

definition is_digit :: "nat \<Rightarrow> bool" where
  "is_digit c = (48 \<le> c \<and> c \<le> 57)"

definition escape_char :: "nat \<Rightarrow> nat option" where
  "escape_char c =
     (if c = 34 then Some 34 else if c = 92 then Some 92 else if c = 47 then Some 47
      else if c = 98 then Some 8 else if c = 102 then Some 12 else if c = 110 then Some 10
      else if c = 114 then Some 13 else if c = 116 then Some 9 else None)"

text \<open>The characters of a string literal after its opening quote, up to the closing one.\<close>

fun parse_chars :: "jsstring \<Rightarrow> (jsstring \<times> jsstring) option" where
  "parse_chars [] = None"
| "parse_chars (c # cs) =
     (if c = 34 then Some ([], cs)
      else if c = 92 then
        (case cs of
           [] \<Rightarrow> None
         | x # r \<Rightarrow>
             if x = 117 then
               (case r of
                  h1 # h2 # h3 # h4 # r' \<Rightarrow>
                    (case (hex_val h1, hex_val h2, hex_val h3, hex_val h4) of
                       (Some a, Some b, Some c', Some d) \<Rightarrow>
                         map_option (\<lambda>(t, rest). ((4096 * a + 256 * b + 16 * c' + d) # t, rest))
                           (parse_chars r')
                     | _ \<Rightarrow> None)
                | _ \<Rightarrow> None)
             else
               (case escape_char x of
                  None \<Rightarrow> None
                | Some v \<Rightarrow> map_option (\<lambda>(t, rest). (v # t, rest)) (parse_chars r)))
      else if c < 32 then None
      else map_option (\<lambda>(t, rest). (c # t, rest)) (parse_chars cs))"

definition lex_fraction :: "jsstring \<Rightarrow> (jsstring \<times> jsstring) option" where
  "lex_fraction s =
     (case s of
        [] \<Rightarrow> Some ([], s)
      | c # r \<Rightarrow>
          if c = 46 then
            (if takeWhile is_digit r = [] then None
             else Some (c # takeWhile is_digit r, dropWhile is_digit r))
          else Some ([], s))"

definition lex_exponent :: "jsstring \<Rightarrow> (jsstring \<times> jsstring) option" where
  "lex_exponent s =
     (case s of
        [] \<Rightarrow> Some ([], s)
      | c # r \<Rightarrow>
          if c = 101 \<or> c = 69 then
            (let (sg, r1) = (case r of
                               [] \<Rightarrow> ([], r)
                             | x # r' \<Rightarrow> if x = 43 \<or> x = 45 then ([x], r') else ([], r))
             in if takeWhile is_digit r1 = [] then None
                else Some (c # sg @ takeWhile is_digit r1, dropWhile is_digit r1))
          else Some ([], s))"

definition lex_number :: "jsstring \<Rightarrow> (jsstring \<times> jsstring) option" where
  "lex_number s =
     (let (sg, s1) = (case s of
                        [] \<Rightarrow> ([], s)
                      | c # r \<Rightarrow> if c = 45 then ([c], r) else ([], s))
      in case s1 of
           [] \<Rightarrow> None
         | d # r \<Rightarrow>
             if \<not> is_digit d then None
             else
               let (ip, s2) = (if d = 48 then ([d], r)
                               else (d # takeWhile is_digit r, dropWhile is_digit r))
               in (case lex_fraction s2 of
                     None \<Rightarrow> None
                   | Some (fp, s3) \<Rightarrow>
                       (case lex_exponent s3 of
                          None \<Rightarrow> None
                        | Some (ep, s4) \<Rightarrow> Some (sg @ ip @ fp @ ep, s4))))"

text \<open>
  The value grammar, by recursive descent. The first argument bounds the depth of the
  recursion; \<open>JSON_parse\<close> starts it at twice the length of the text plus one, which
  is never used up (lemma \<open>JSON_parse_fuel\<close>).
\<close>

fun parse_value :: "nat \<Rightarrow> jsstring \<Rightarrow> jsval parsed"
  and parse_elements :: "nat \<Rightarrow> jsstring \<Rightarrow> (jsval list) parsed"
  and parse_members :: "nat \<Rightarrow> jsstring \<Rightarrow> ((jsstring \<times> jsval) list) parsed" where
  "parse_value 0 s = OutOfFuel"
| "parse_value (Suc n) s =
     (case skip_ws s of
        [] \<Rightarrow> Malformed
      | c # r \<Rightarrow>
          if c = 123 then
            (case skip_ws r of
               [] \<Rightarrow> Malformed
             | x # r' \<Rightarrow>
                 if x = 125 then Parsed (Obj []) r'
                 else (case parse_members n r of
                         Parsed ms rest \<Rightarrow> Parsed (Obj ms) rest
                       | Malformed \<Rightarrow> Malformed
                       | OutOfFuel \<Rightarrow> OutOfFuel))
          else if c = 91 then
            (case skip_ws r of
               [] \<Rightarrow> Malformed
             | x # r' \<Rightarrow>
                 if x = 93 then Parsed (Arr []) r'
                 else (case parse_elements n r of
                         Parsed vs rest \<Rightarrow> Parsed (Arr vs) rest
                       | Malformed \<Rightarrow> Malformed
                       | OutOfFuel \<Rightarrow> OutOfFuel))
          else if c = 34 then
            (case parse_chars r of
               None \<Rightarrow> Malformed
             | Some (t, rest) \<Rightarrow> Parsed (Str t) rest)
          else if js_startsWith (c # r) (lit ''true'') then Parsed (Bool True) (drop 4 (c # r))
          else if js_startsWith (c # r) (lit ''false'') then Parsed (Bool False) (drop 5 (c # r))
          else if js_startsWith (c # r) (lit ''null'') then Parsed Null (drop 4 (c # r))
          else
            (case lex_number (c # r) of
               None \<Rightarrow> Malformed
             | Some (t, rest) \<Rightarrow> Parsed (Num t) rest))"
| "parse_elements 0 s = OutOfFuel"
| "parse_elements (Suc n) s =
     (case parse_value n s of
        Malformed \<Rightarrow> Malformed
      | OutOfFuel \<Rightarrow> OutOfFuel
      | Parsed v r \<Rightarrow>
          (case skip_ws r of
             [] \<Rightarrow> Malformed
           | x # r' \<Rightarrow>
               if x = 93 then Parsed [v] r'
               else if x = 44 then
                 (case parse_elements n r' of
                    Parsed vs rest \<Rightarrow> Parsed (v # vs) rest
                  | Malformed \<Rightarrow> Malformed
                  | OutOfFuel \<Rightarrow> OutOfFuel)
               else Malformed))"
| "parse_members 0 s = OutOfFuel"
| "parse_members (Suc n) s =
     (case skip_ws s of
        [] \<Rightarrow> Malformed
      | q # r0 \<Rightarrow>
          if q \<noteq> 34 then Malformed
          else
            (case parse_chars r0 of
               None \<Rightarrow> Malformed
             | Some (k, r1) \<Rightarrow>
                 (case skip_ws r1 of
                    [] \<Rightarrow> Malformed
                  | colon # r2 \<Rightarrow>
                      if colon \<noteq> 58 then Malformed
                      else
                        (case parse_value n r2 of
                           Malformed \<Rightarrow> Malformed
                         | OutOfFuel \<Rightarrow> OutOfFuel
                         | Parsed v r \<Rightarrow>
                             (case skip_ws r of
                                [] \<Rightarrow> Malformed
                              | x # r' \<Rightarrow>
                                  if x = 125 then Parsed [(k, v)] r'
                                  else if x = 44 then
                                    (case parse_members n r' of
                                       Parsed ms rest \<Rightarrow> Parsed ((k, v) # ms) rest
                                     | Malformed \<Rightarrow> Malformed
                                     | OutOfFuel \<Rightarrow> OutOfFuel)
                                  else Malformed)))))"

definition JSON_parse :: "jsstring \<Rightarrow> error + jsval" where
  "JSON_parse s =
     (case parse_value (2 * length s + 1) s of
        Parsed v rest \<Rightarrow> if skip_ws rest = [] then Inr v else Inl SyntaxError
      | Malformed \<Rightarrow> Inl SyntaxError
      | OutOfFuel \<Rightarrow> Inl (Thrown ''recursion bound''))"

text \<open>
  \<^verbatim>\<open>v.key\<close> for a key that no built-in prototype defines: the own property of an
  object, \<^verbatim>\<open>undefined\<close> on any other value, a \<^verbatim>\<open>TypeError\<close> on \<^verbatim>\<open>null\<close> and
  \<^verbatim>\<open>undefined\<close>.
\<close>

fun js_get :: "jsval \<Rightarrow> jsstring \<Rightarrow> error + jsval" where
  "js_get Null k = Inl TypeError"
| "js_get Undefined k = Inl TypeError"
| "js_get (Obj ms) k = (case map_of (rev ms) k of None \<Rightarrow> Inr Undefined | Some v \<Rightarrow> Inr v)"
| "js_get v k = Inr Undefined"

subsection \<open>decodeURIComponent\<close>

text \<open>
  ECMAScript's \<^verbatim>\<open>Decode\<close> with an empty reserved set. Every \<^verbatim>\<open>%\<close> must be followed by
  two hexadecimal digits; the octets so written must form well-formed UTF-8 (no overlong
  form, no surrogate, nothing above U+10FFFF), every octet of a multi-octet sequence being
  percent-encoded; the code point is appended as UTF-16. Anything else is a
  \<^verbatim>\<open>URIError\<close>. The first pass reads the escapes, the second decodes the octets.
\<close>

datatype uri_item = Raw nat | Octet nat

fun unescape :: "jsstring \<Rightarrow> uri_item list option" where
  "unescape [] = Some []"
| "unescape (c # cs) =
     (if c \<noteq> 37 then map_option ((#) (Raw c)) (unescape cs)
      else
        (case cs of
           a # b # rest \<Rightarrow>
             (case (hex_val a, hex_val b) of
                (Some x, Some y) \<Rightarrow> map_option ((#) (Octet (16 * x + y))) (unescape rest)
              | _ \<Rightarrow> None)
         | _ \<Rightarrow> None))"

definition continuation :: "nat \<Rightarrow> bool" where
  "continuation b = (128 \<le> b \<and> b < 192)"

definition utf16 :: "nat \<Rightarrow> jsstring" where
  "utf16 cp =
     (if cp < 65536 then [cp]
      else [55296 + (cp - 65536) div 1024, 56320 + (cp - 65536) mod 1024])"

fun utf8_items :: "uri_item list \<Rightarrow> jsstring option" where
  "utf8_items [] = Some []"
| "utf8_items (Raw c # r) = map_option ((#) c) (utf8_items r)"
| "utf8_items (Octet b # r) =
     (if b < 128 then map_option ((#) b) (utf8_items r)
      else if 192 \<le> b \<and> b < 224 then
        (case r of
           Octet b1 # r1 \<Rightarrow>
             (let cp = (b - 192) * 64 + (b1 - 128) in
              if continuation b1 \<and> 128 \<le> cp
              then map_option ((@) (utf16 cp)) (utf8_items r1) else None)
         | _ \<Rightarrow> None)
      else if 224 \<le> b \<and> b < 240 then
        (case r of
           Octet b1 # Octet b2 # r2 \<Rightarrow>
             (let cp = (b - 224) * 4096 + (b1 - 128) * 64 + (b2 - 128) in
              if continuation b1 \<and> continuation b2 \<and> 2048 \<le> cp
                 \<and> \<not> (55296 \<le> cp \<and> cp < 57344)
              then map_option ((@) (utf16 cp)) (utf8_items r2) else None)
         | _ \<Rightarrow> None)
      else if 240 \<le> b \<and> b < 248 then
        (case r of
           Octet b1 # Octet b2 # Octet b3 # r3 \<Rightarrow>
             (let cp = (b - 240) * 262144 + (b1 - 128) * 4096 + (b2 - 128) * 64 + (b3 - 128) in
              if continuation b1 \<and> continuation b2 \<and> continuation b3
                 \<and> 65536 \<le> cp \<and> cp < 1114112
              then map_option ((@) (utf16 cp)) (utf8_items r3) else None)
         | _ \<Rightarrow> None)
      else None)"

definition decodeURIComponent :: "jsstring \<Rightarrow> error + jsstring" where
  "decodeURIComponent s =
     (case unescape s of
        None \<Rightarrow> Inl URIError
      | Some items \<Rightarrow>
          (case utf8_items items of None \<Rightarrow> Inl URIError | Some r \<Rightarrow> Inr r))"


section \<open>The file serving gateway\<close>

subsection \<open>Collaborators of the routes\<close>

record grant_input =
  g_tenantId :: jsstring
  g_scope :: "jsstring option"
  g_ownerId :: jsstring
  g_filename :: "jsstring option"
  g_action :: jsstring
  g_expiresInMinutes :: "int option"

record signed_url_data =
  sd_url :: jsstring
  sd_expiresAt :: int

record verification =
  valid :: bool
  expired :: bool
  v_tenantId :: "jsstring option"
  v_scope :: "jsstring option"
  v_ownerId :: "jsstring option"
  v_filename :: "jsstring option"
  v_action :: "jsstring option"

record jwt_claims =
  c_tenantId :: "jsstring option"
  c_userId :: "jsstring option"

text \<open>
  What the routes call and do not define: \<^verbatim>\<open>SignedUrlService\<close>, \<^verbatim>\<open>fastify.jwt\<close>,
  the \<^verbatim>\<open>User\<close> collection, and Node's \<^verbatim>\<open>path\<close>, \<^verbatim>\<open>fs\<close> and
  \<^verbatim>\<open>process.cwd()\<close>. \<open>findUserTenant\<close> is
  \<^verbatim>\<open>User.findById(userId).lean()\<close> followed by the optional chain
  \<^verbatim>\<open>u?.tenantId?.toString()\<close>; \<open>fs_access\<close> tells whether \<^verbatim>\<open>fs.access\<close> resolves.
\<close>

record env =
  cwd :: jsstring
  path_join :: "jsstring list \<Rightarrow> jsstring"
  path_extname :: "jsstring \<Rightarrow> jsstring"
  toLowerCase :: "jsstring \<Rightarrow> jsstring"
  fs_access :: "jsstring \<Rightarrow> bool"
  generateSignedUrl :: "grant_input \<Rightarrow> error + signed_url_data"
  getTimeRemaining :: "int \<Rightarrow> int"
  verifySignedUrl :: "jsstring \<Rightarrow> verification"
  jwt_verify :: "jsstring \<Rightarrow> error + jwt_claims"
  findUserTenant :: "jsstring \<Rightarrow> error + jsstring option"

subsection \<open>Replies and observable effects\<close>

datatype effect =
    FsAccess jsstring
  | GenerateSignedUrl grant_input
  | JwtVerify jsstring
  | FindUserById jsstring

record batch_item =
  bi_filename :: "jsstring option"
  bi_url :: jsstring
  bi_expiresAt :: int

datatype payload =
    ErrorJson string
  | SignedUrlJson jsstring int int
  | BatchJson "batch_item list"
  | FileStream jsstring

record reply =
  status :: nat
  headers :: "(string \<times> jsstring) list"
  body :: payload

text \<open>
  A handler yields the effects it performed, in order, and either the reply it sent or
  the exception that escaped it (which the framework turns into a 500).
\<close>

type_synonym outcome = "effect list \<times> (error + reply)"

definition send_error :: "nat \<Rightarrow> string \<Rightarrow> error + reply" where
  "send_error c msg = Inr \<lparr>status = c, headers = [], body = ErrorJson msg\<rparr>"

subsection \<open>POST /signed-url\<close>

record session_user =
  u_tenantId :: "jsstring option"

record signed_url_body =
  b_tenantId :: "jsstring option"
  b_scope :: "jsstring option"
  b_ownerId :: "jsstring option"
  b_filename :: "jsstring option"
  b_action :: "jsstring option"
  b_expiresInMinutes :: "int option"

definition default_action :: "jsstring option \<Rightarrow> jsstring" where
  "default_action a = (case a of None \<Rightarrow> lit ''view'' | Some x \<Rightarrow> x)"

definition postSignedUrl :: "env \<Rightarrow> session_user \<Rightarrow> signed_url_body \<Rightarrow> outcome" where
  "postSignedUrl e user b =
     (let action = default_action (b_action b) in
      if \<not> truthy (b_filename b) \<or> \<not> truthy (b_scope b) \<or> \<not> truthy (b_ownerId b) then
        ([], send_error 400 ''Missing required fields: filename, scope, ownerId'')
      else
        let fileTenantId = js_or (b_tenantId b) (u_tenantId user) in
        if js_String (u_tenantId user) \<noteq> js_String fileTenantId then
          ([], send_error 403 ''Access denied: You don't have access to this tenant's files'')
        else
          let filePath = path_join e [cwd e, lit ''uploads'', js_String fileTenantId,
                js_String (b_scope b), js_String (b_ownerId b), js_String (b_filename b)] in
          if \<not> fs_access e filePath then
            ([FsAccess filePath], send_error 404 ''File not found'')
          else
            let grant = \<lparr>g_tenantId = js_String fileTenantId, g_scope = b_scope b,
                  g_ownerId = js_String (b_ownerId b), g_filename = b_filename b,
                  g_action = action, g_expiresInMinutes = b_expiresInMinutes b\<rparr> in
            (case generateSignedUrl e grant of
               Inl err \<Rightarrow> ([FsAccess filePath, GenerateSignedUrl grant], Inl err)
             | Inr d \<Rightarrow>
                 ([FsAccess filePath, GenerateSignedUrl grant],
                  Inr \<lparr>status = 200, headers = [],
                       body = SignedUrlJson (sd_url d) (sd_expiresAt d)
                                (getTimeRemaining e (sd_expiresAt d))\<rparr>)))"

subsection \<open>POST /signed-urls/batch\<close>

record file_entry =
  f_tenantId :: "jsstring option"
  f_scope :: "jsstring option"
  f_ownerId :: "jsstring option"
  f_filename :: "jsstring option"

record batch_body =
  bb_files :: "file_entry list option"
  bb_action :: "jsstring option"
  bb_expiresInMinutes :: "int option"

definition foreign_file :: "session_user \<Rightarrow> file_entry \<Rightarrow> bool" where
  "foreign_file user f =
     (js_String (js_or (f_tenantId f) (u_tenantId user)) \<noteq> js_String (u_tenantId user))"

definition batch_grant :: "session_user \<Rightarrow> jsstring \<Rightarrow> int option \<Rightarrow> file_entry \<Rightarrow> grant_input" where
  "batch_grant user action mins f =
     \<lparr>g_tenantId = js_String (js_or (f_tenantId f) (u_tenantId user)), g_scope = f_scope f,
      g_ownerId = js_String (f_ownerId f), g_filename = f_filename f,
      g_action = action, g_expiresInMinutes = mins\<rparr>"

text \<open>\<^verbatim>\<open>files.map(...)\<close>: the first call of the service that throws ends the handler.\<close>

fun sign_all :: "env \<Rightarrow> session_user \<Rightarrow> jsstring \<Rightarrow> int option \<Rightarrow> file_entry list
    \<Rightarrow> effect list \<times> (error + batch_item list)" where
  "sign_all e user action mins [] = ([], Inr [])"
| "sign_all e user action mins (f # fs) =
     (let grant = batch_grant user action mins f in
      case generateSignedUrl e grant of
        Inl err \<Rightarrow> ([GenerateSignedUrl grant], Inl err)
      | Inr d \<Rightarrow>
          (case sign_all e user action mins fs of
             (effs, Inl err) \<Rightarrow> (GenerateSignedUrl grant # effs, Inl err)
           | (effs, Inr items) \<Rightarrow>
               (GenerateSignedUrl grant # effs,
                Inr (\<lparr>bi_filename = f_filename f, bi_url = sd_url d,
                       bi_expiresAt = sd_expiresAt d\<rparr> # items))))"

definition postSignedUrlsBatch :: "env \<Rightarrow> session_user \<Rightarrow> batch_body \<Rightarrow> outcome" where
  "postSignedUrlsBatch e user b =
     (let action = default_action (bb_action b) in
      case bb_files b of
        None \<Rightarrow> ([], send_error 400 ''Missing or invalid files array'')
      | Some files \<Rightarrow>
          if files = [] then ([], send_error 400 ''Missing or invalid files array'')
          else
            let invalidFiles = filter (foreign_file user) files in
            if length invalidFiles > 0 then
              ([], send_error 403 ''Access denied: Some files don't belong to your tenant'')
            else
              (case sign_all e user action (bb_expiresInMinutes b) files of
                 (effs, Inl err) \<Rightarrow> (effs, Inl err)
               | (effs, Inr items) \<Rightarrow>
                   (effs, Inr \<lparr>status = 200, headers = [], body = BatchJson items\<rparr>)))"

subsection \<open>Headers shared by the two serving routes\<close>

definition mime_of :: "(string \<times> string) list \<Rightarrow> jsstring \<Rightarrow> jsstring" where
  "mime_of mimeMap ext =
     (case map_of (map (\<lambda>(k, v). (lit k, lit v)) mimeMap) ext of
        Some m \<Rightarrow> m
      | None \<Rightarrow> lit ''application/octet-stream'')"

definition secure_mimeMap :: "(string \<times> string) list" where
  "secure_mimeMap =
     [(''.png'', ''image/png''), (''.jpg'', ''image/jpeg''), (''.jpeg'', ''image/jpeg''),
      (''.webp'', ''image/webp''), (''.gif'', ''image/gif''), (''.pdf'', ''application/pdf''),
      (''.svg'', ''image/svg+xml''), (''.txt'', ''text/plain''), (''.csv'', ''text/csv''),
      (''.json'', ''application/json''), (''.doc'', ''application/msword''),
      (''.docx'', ''application/vnd.openxmlformats-officedocument.wordprocessingml.document''),
      (''.xls'', ''application/vnd.ms-excel''),
      (''.xlsx'', ''application/vnd.openxmlformats-officedocument.spreadsheetml.sheet'')]"


text \<open>
  Both routes answer an origin from localhost, from the progressnet.io domain or from any
  HTTPS site with that origin and credentials, and any other request with \<^verbatim>\<open>*\<close>.
\<close>

definition cors_headers :: "jsstring option \<Rightarrow> (string \<times> jsstring) list" where
  "cors_headers origin =
     (case origin of
        None \<Rightarrow> [(''Access-Control-Allow-Origin'', lit ''*'')]
      | Some og \<Rightarrow>
          if og = [] then [(''Access-Control-Allow-Origin'', lit ''*'')]
          else if js_includes og (lit ''localhost'') \<or> js_includes og (lit ''127.0.0.1'')
                  \<or> js_endsWith og (lit ''.progressnet.io'')
                  \<or> og = lit ''https://progressnet.io''
                  \<or> og = lit ''https://www.progressnet.io''
                  \<or> js_startsWith og (lit ''https://'')
          then [(''Access-Control-Allow-Origin'', og),
                (''Access-Control-Allow-Credentials'', lit ''true'')]
          else [(''Access-Control-Allow-Origin'', lit ''*'')])"

subsection \<open>GET /secure/*\<close>

definition getSecure :: "env \<Rightarrow> jsstring \<Rightarrow> jsstring option \<Rightarrow> outcome" where
  "getSecure e token origin =
     (let verified = verifySignedUrl e token in
      if \<not> valid verified then
        if expired verified then
          ([], send_error 410 ''This link has expired. Please request a new one.'')
        else ([], send_error 403 ''Invalid or tampered URL'')
      else
        (case (v_tenantId verified, v_scope verified, v_ownerId verified, v_filename verified) of
           (Some tenantId, Some scope, Some ownerId, Some filename) \<Rightarrow>
             (let filePath = path_join e [cwd e, lit ''uploads'', tenantId, scope, ownerId, filename] in
              if \<not> fs_access e filePath then
                ([FsAccess filePath], send_error 404 ''File not found'')
              else
                let ext = toLowerCase e (path_extname e filePath);
                    contentType = mime_of secure_mimeMap ext
                in ([FsAccess filePath],
                    Inr \<lparr>status = 200,
                         headers =
                           [(''Content-Type'', contentType),
                            (''Cross-Origin-Resource-Policy'', lit ''cross-origin''),
                            (''Content-Disposition'',
                               if v_action verified = Some (lit ''download'')
                               then lit ''attachment; filename=\"'' @ filename @ lit ''\"''
                               else lit ''inline'')]
                           @ cors_headers origin
                           @ [(''Access-Control-Allow-Methods'', lit ''GET, OPTIONS''),
                              (''Access-Control-Allow-Headers'',
                                 lit ''Origin, X-Requested-With, Content-Type, Accept''),
                              (''X-Content-Type-Options'', lit ''nosniff''),
                              (''X-Frame-Options'', lit ''SAMEORIGIN''),
                              (''Cache-Control'', lit ''private, max-age=300'')],
                         body = FileStream filePath\<rparr>))
         | _ \<Rightarrow> ([], Inl TypeError)))"

subsection \<open>GET /:tenantId/:scope/:ownerId/:filename (legacy serving)\<close>

record upload_request =
  r_user :: "session_user option"
  q_token :: "jsstring option"
  p_tenantId :: jsstring
  p_scope :: jsstring
  p_ownerId :: jsstring
  p_filename :: jsstring
  h_origin :: "jsstring option"








section \<open>The legacy URL migration helper (file-url-converter.ts)\<close>

subsection \<open>isOldTokenUrl\<close>

definition isOldTokenUrl :: "jsstring option \<Rightarrow> bool" where
  "isOldTokenUrl url =
     (case url of
        None \<Rightarrow> False
      | Some u \<Rightarrow>
          if u = [] then False
          else js_includes u (lit ''?token='') \<or> js_includes u (lit ''&token=''))"

subsection \<open>extractFileMetadataFromUrl\<close>

text \<open>
  The fields are typed \<^verbatim>\<open>string\<close> in the source, but the signed branch copies whatever
  the decoded payload holds, so they are values here.
\<close>

record file_metadata =
  filename :: jsval
  scope :: jsval
  ownerId :: jsval
  tenantId :: jsval

text \<open>
  The inner \<^verbatim>\<open>try\<close> block. \<open>Inr (Some m)\<close>: it returns the object \<open>m\<close>;
  \<open>Inr None\<close>: \<^verbatim>\<open>payloadBase64\<close> is empty and the block is left without a
  \<^verbatim>\<open>return\<close>; \<open>Inl e\<close>: \<open>e\<close> is thrown.
\<close>

definition decode_token :: "jsstring \<Rightarrow> error + file_metadata option" where
  "decode_token token =
     (case js_split 46 token of
        [] \<Rightarrow> Inr None
      | payloadBase64 # _ \<Rightarrow>
          if payloadBase64 = [] then Inr None
          else
            (case atob (map (\<lambda>c. if c = 95 then 47 else c)
                         (map (\<lambda>c. if c = 45 then 43 else c) payloadBase64)) of
               Inl err \<Rightarrow> Inl err
             | Inr payloadJson \<Rightarrow>
                 (case JSON_parse payloadJson of
                    Inl err \<Rightarrow> Inl err
                  | Inr payload \<Rightarrow>
                      (case (js_get payload (lit ''filename''), js_get payload (lit ''scope''),
                             js_get payload (lit ''ownerId''), js_get payload (lit ''tenantId'')) of
                         (Inr f, Inr s, Inr ow, Inr t) \<Rightarrow>
                           Inr (Some \<lparr>filename = f, scope = s, ownerId = ow, tenantId = t\<rparr>)
                       | _ \<Rightarrow> Inl TypeError))))"

text \<open>
  The signed-URL branch: \<open>Some r\<close> when the function returns \<open>r\<close> from it,
  \<open>None\<close> when control falls through to the legacy branch.
\<close>

definition signed_branch :: "jsstring \<Rightarrow> file_metadata option option" where
  "signed_branch urlWithoutQuery =
     (if js_includes urlWithoutQuery (lit ''/files/secure/'') then
        (let pathParts = js_split 47 urlWithoutQuery;
             secureIndex = indexOf pathParts (lit ''secure'')
         in if secureIndex \<noteq> - 1 \<and> int (length pathParts) > secureIndex + 1 then
              (let token = js_join 47 (drop (nat (secureIndex + 1)) pathParts) in
               case decode_token token of
                 Inl decodeError \<Rightarrow> Some None
               | Inr (Some m) \<Rightarrow> Some (Some m)
               | Inr None \<Rightarrow> None)
            else None)
      else None)"

text \<open>
  The legacy branch; the four reads are in range by the test on the length. A
  \<^verbatim>\<open>URIError\<close> of \<^verbatim>\<open>decodeURIComponent\<close> is caught by the outer \<^verbatim>\<open>try\<close>.
\<close>

definition legacy_branch :: "jsstring \<Rightarrow> file_metadata option" where
  "legacy_branch urlWithoutQuery =
     (let pathParts = js_split 47 urlWithoutQuery;
          uploadsIndex = indexOf pathParts (lit ''uploads'')
      in if uploadsIndex = - 1 \<or> int (length pathParts) < uploadsIndex + 5 then None
         else
           (case decodeURIComponent (pathParts ! nat (uploadsIndex + 4)) of
              Inl err \<Rightarrow> None
            | Inr fname \<Rightarrow>
                Some \<lparr>filename = Str fname,
                      scope = Str (pathParts ! nat (uploadsIndex + 2)),
                      ownerId = Str (pathParts ! nat (uploadsIndex + 3)),
                      tenantId = Str (pathParts ! nat (uploadsIndex + 1))\<rparr>))"

definition extractFileMetadataFromUrl :: "jsstring \<Rightarrow> file_metadata option" where
  "extractFileMetadataFromUrl url =
     (case js_split 63 url of
        [] \<Rightarrow> None
      | urlWithoutQuery # _ \<Rightarrow>
          (case signed_branch urlWithoutQuery of
             Some r \<Rightarrow> r
           | None \<Rightarrow> legacy_branch urlWithoutQuery))"

subsection \<open>convertToSignedUrl\<close>

record convert_options =
  o_action :: "jsstring option"
  o_expiresInMinutes :: "int option"

text \<open>
  \<^verbatim>\<open>generateSignedUrlOnce\<close> (src/hooks/use-signed-url) and \<^verbatim>\<open>CONFIG.serverUrl\<close>
  (src/global-config) are imported: the first is a request to the issuance endpoint, which
  resolves to a URL or rejects. A client is what the two are at the time of one call of
  \<^verbatim>\<open>convertToSignedUrl\<close>; a later call may meet another one, as the request is made
  anew.
\<close>

record client =
  generateSignedUrlOnce :: "file_metadata \<Rightarrow> convert_options option \<Rightarrow> error + jsstring"
  serverUrl :: jsstring

text \<open>The body of the \<^verbatim>\<open>try\<close> block.\<close>

definition convert_attempt :: "client \<Rightarrow> jsstring \<Rightarrow> convert_options option \<Rightarrow> error + jsstring" where
  "convert_attempt cl url options =
     (case extractFileMetadataFromUrl url of
        None \<Rightarrow> Inr url
      | Some metadata \<Rightarrow>
          (case generateSignedUrlOnce cl metadata options of
             Inl err \<Rightarrow> Inl err
           | Inr signedUrl \<Rightarrow>
               if js_startsWith signedUrl (lit ''http'') then Inr signedUrl
               else Inr (serverUrl cl @ signedUrl)))"

definition convertToSignedUrl :: "client \<Rightarrow> jsstring option \<Rightarrow> convert_options option \<Rightarrow> error + jsstring" where
  "convertToSignedUrl cl url options =
     (case url of
        None \<Rightarrow> Inr []
      | Some u \<Rightarrow>
          if u = [] then Inr []
          else if \<not> isOldTokenUrl (Some u) then Inr u
          else (case convert_attempt cl u options of
                  Inl err \<Rightarrow> Inr u
                | Inr r \<Rightarrow> Inr r))"

section \<open>Token codec and issuance\<close>

text \<open>
  Modelled from the spec: the token codec's \<^verbatim>\<open>encode\<close> and
  \<^verbatim>\<open>SignedUrlService.generateSignedUrl\<close> (services/signed-url-service is imported by
  the routes and is not among the sources). Section 4.1: the grant is serialised as JSON
  without whitespace, the JSON text is base64url-encoded (no padding, \<^verbatim>\<open>-\<close> and
  \<^verbatim>\<open>_\<close> for \<^verbatim>\<open>+\<close> and \<^verbatim>\<open>/\<close>), a keyed signature of the encoded payload is
  base64url-encoded, and the two parts are joined by one dot. Section 4.2: the URL is
  \<^verbatim>\<open>/files/secure/{token}\<close> and \<^verbatim>\<open>expiresAt = issuedAt + expiresInMinutes*60000\<close>, the
  default being 60 minutes. The keys are written in the order of section 3. The JSON text
  becomes octets as UTF-8, and strings are quoted as \<^verbatim>\<open>JSON.stringify\<close> does. The
  keyed signature is the parameter \<open>sign\<close>.
\<close>

record access_grant =
  ag_tenantId :: jsstring
  ag_scope :: jsstring
  ag_ownerId :: jsstring
  ag_filename :: jsstring
  ag_action :: jsstring
  ag_issuedAt :: int
  ag_expiresAt :: int

definition high_surrogate :: "nat \<Rightarrow> bool" where
  "high_surrogate c = (55296 \<le> c \<and> c < 56320)"

definition low_surrogate :: "nat \<Rightarrow> bool" where
  "low_surrogate c = (56320 \<le> c \<and> c < 57344)"

text \<open>Modelled from the spec: the code points of a string; a lone surrogate reads as U+FFFD.\<close>

fun code_points :: "jsstring \<Rightarrow> nat list" where
  "code_points [] = []"
| "code_points (c # cs) =
     (if high_surrogate c then
        (case cs of
           [] \<Rightarrow> [65533]
         | d # r \<Rightarrow>
             if low_surrogate d
             then (65536 + (c - 55296) * 1024 + (d - 56320)) # code_points r
             else 65533 # code_points cs)
      else if low_surrogate c then 65533 # code_points cs
      else c # code_points cs)"

text \<open>Modelled from the spec: the UTF-8 octets of a code point and of a string.\<close>

definition utf8_of :: "nat \<Rightarrow> nat list" where
  "utf8_of cp =
     (if cp < 128 then [cp]
      else if cp < 2048 then [192 + cp div 64, 128 + cp mod 64]
      else if cp < 65536 then [224 + cp div 4096, 128 + (cp div 64) mod 64, 128 + cp mod 64]
      else [240 + cp div 262144, 128 + (cp div 4096) mod 64, 128 + (cp div 64) mod 64,
            128 + cp mod 64])"

definition utf8_encode :: "jsstring \<Rightarrow> nat list" where
  "utf8_encode s = concat (map utf8_of (code_points s))"

text \<open>Modelled from the spec: base64url without padding.\<close>

fun sextets_of_octets :: "nat list \<Rightarrow> nat list" where
  "sextets_of_octets (a # b # c # r) =
     (a div 4) # ((a mod 4) * 16 + b div 16) # ((b mod 16) * 4 + c div 64) # (c mod 64)
       # sextets_of_octets r"
| "sextets_of_octets [a, b] = [a div 4, (a mod 4) * 16 + b div 16, (b mod 16) * 4]"
| "sextets_of_octets [a] = [a div 4, (a mod 4) * 16]"
| "sextets_of_octets [] = []"

definition b64url_char :: "nat \<Rightarrow> nat" where
  "b64url_char v =
     (if v < 26 then 65 + v else if v < 52 then 71 + v else if v < 62 then v - 4
      else if v = 62 then 45 else 95)"

definition base64url :: "nat list \<Rightarrow> jsstring" where
  "base64url octets = map b64url_char (sextets_of_octets octets)"

text \<open>Modelled from the spec: \<^verbatim>\<open>JSON.stringify\<close> of a string and of an integer.\<close>

definition hex_digit :: "nat \<Rightarrow> nat" where
  "hex_digit v = (if v < 10 then 48 + v else 87 + v)"

definition unicode_escape :: "nat \<Rightarrow> jsstring" where
  "unicode_escape c =
     [92, 117, hex_digit (c div 4096), hex_digit ((c div 256) mod 16),
      hex_digit ((c div 16) mod 16), hex_digit (c mod 16)]"

fun quote_chars :: "jsstring \<Rightarrow> jsstring" where
  "quote_chars [] = []"
| "quote_chars (c # cs) =
     (if c = 8 then [92, 98] @ quote_chars cs
      else if c = 9 then [92, 116] @ quote_chars cs
      else if c = 10 then [92, 110] @ quote_chars cs
      else if c = 12 then [92, 102] @ quote_chars cs
      else if c = 13 then [92, 114] @ quote_chars cs
      else if c = 34 then [92, 34] @ quote_chars cs
      else if c = 92 then [92, 92] @ quote_chars cs
      else if c < 32 then unicode_escape c @ quote_chars cs
      else if high_surrogate c then
        (case cs of
           [] \<Rightarrow> unicode_escape c
         | d # r \<Rightarrow>
             if low_surrogate d then c # d # quote_chars r
             else unicode_escape c @ quote_chars cs)
      else if low_surrogate c then unicode_escape c @ quote_chars cs
      else c # quote_chars cs)"

definition json_quote :: "jsstring \<Rightarrow> jsstring" where
  "json_quote s = 34 # quote_chars s @ [34]"

function decimal_nat :: "nat \<Rightarrow> jsstring" where
  "decimal_nat n = (if n < 10 then [48 + n] else decimal_nat (n div 10) @ [48 + n mod 10])"
  by pat_completeness auto
termination
  by (relation "measure id") auto

declare decimal_nat.simps [simp del]

definition decimal :: "int \<Rightarrow> jsstring" where
  "decimal i = (if i < 0 then 45 # decimal_nat (nat (- i)) else decimal_nat (nat i))"

text \<open>Modelled from the spec: the payload, the token and the signed URL.\<close>

definition payload_json :: "access_grant \<Rightarrow> jsstring" where
  "payload_json g =
     lit ''{\"tenantId\":'' @ json_quote (ag_tenantId g)
     @ lit '',\"scope\":'' @ json_quote (ag_scope g)
     @ lit '',\"ownerId\":'' @ json_quote (ag_ownerId g)
     @ lit '',\"filename\":'' @ json_quote (ag_filename g)
     @ lit '',\"action\":'' @ json_quote (ag_action g)
     @ lit '',\"issuedAt\":'' @ decimal (ag_issuedAt g)
     @ lit '',\"expiresAt\":'' @ decimal (ag_expiresAt g)
     @ lit ''}''"

definition encode :: "(jsstring \<Rightarrow> nat list) \<Rightarrow> access_grant \<Rightarrow> jsstring" where
  "encode sign g =
     (let payloadSegment = base64url (utf8_encode (payload_json g))
      in payloadSegment @ [46] @ base64url (sign payloadSegment))"

definition issue :: "(jsstring \<Rightarrow> nat list) \<Rightarrow> int \<Rightarrow> grant_input \<Rightarrow> error + signed_url_data" where
  "issue sign now g =
     (let mins = (case g_expiresInMinutes g of None \<Rightarrow> 60 | Some m \<Rightarrow> m) in
      if g_tenantId g = [] \<or> \<not> truthy (g_scope g) \<or> g_ownerId g = []
         \<or> \<not> truthy (g_filename g) \<or> mins \<le> 0
      then Inl InvalidGrantError
      else
        let grant = \<lparr>ag_tenantId = g_tenantId g, ag_scope = js_String (g_scope g),
                     ag_ownerId = g_ownerId g, ag_filename = js_String (g_filename g),
                     ag_action = g_action g, ag_issuedAt = now,
                     ag_expiresAt = now + mins * 60000\<rparr>
        in Inr \<lparr>sd_url = lit ''/files/secure/'' @ encode sign grant,
                sd_expiresAt = ag_expiresAt grant\<rparr>)"

section \<open>Observations and concrete instances\<close>

text \<open>What a client of a route observes of an outcome.\<close>

definition replied_status :: "outcome \<Rightarrow> nat option" where
  "replied_status out = (case snd out of Inl err \<Rightarrow> None | Inr r \<Rightarrow> Some (status r))"

definition streams_file :: "outcome \<Rightarrow> bool" where
  "streams_file out =
     (case snd out of
        Inl err \<Rightarrow> False
      | Inr r \<Rightarrow> (case body r of FileStream p \<Rightarrow> True | _ \<Rightarrow> False))"


text \<open>
  A deployment with one stored file, \<^verbatim>\<open>/srv/uploads/t1/tasks/o1/a.png\<close>, used to
  instantiate the theorems below.
\<close>

definition demo_verify :: "jsstring \<Rightarrow> verification" where
  "demo_verify token =
     (if token = lit ''good'' then
        \<lparr>valid = True, expired = False, v_tenantId = Some (lit ''t1''),
         v_scope = Some (lit ''tasks''), v_ownerId = Some (lit ''o1''),
         v_filename = Some (lit ''a.png''), v_action = Some (lit ''view'')\<rparr>
      else if token = lit ''gone'' then
        \<lparr>valid = True, expired = False, v_tenantId = Some (lit ''t1''),
         v_scope = Some (lit ''tasks''), v_ownerId = Some (lit ''o1''),
         v_filename = Some (lit ''b.png''), v_action = Some (lit ''view'')\<rparr>
      else
        \<lparr>valid = False, expired = (token = lit ''old''), v_tenantId = None, v_scope = None,
         v_ownerId = None, v_filename = None, v_action = None\<rparr>)"

definition demo_jwt :: "jsstring \<Rightarrow> error + jwt_claims" where
  "demo_jwt token =
     (if token = lit ''jwt-t1'' then Inr \<lparr>c_tenantId = Some (lit ''t1''), c_userId = Some (lit ''u1'')\<rparr>
      else if token = lit ''jwt-t2'' then Inr \<lparr>c_tenantId = Some (lit ''t2''), c_userId = Some (lit ''u2'')\<rparr>
      else Inl (Thrown ''jwt malformed''))"

definition demo_env :: env where
  "demo_env =
     \<lparr>cwd = lit ''/srv'',
      path_join = js_join 47,
      path_extname = (\<lambda>p. drop (length p - 4) p),
      toLowerCase = (\<lambda>s. s),
      fs_access = (\<lambda>p. p = lit ''/srv/uploads/t1/tasks/o1/a.png''),
      generateSignedUrl = issue (\<lambda>p. [1, 2, 3]) 1700000000000,
      getTimeRemaining = (\<lambda>t. max 0 ((t - 1700000000000) div 1000)),
      verifySignedUrl = demo_verify,
      jwt_verify = demo_jwt,
      findUserTenant = (\<lambda>u. Inr None)\<rparr>"

definition demo_user :: session_user where
  "demo_user = \<lparr>u_tenantId = Some (lit ''t1'')\<rparr>"

definition demo_request :: "session_user option \<Rightarrow> jsstring option \<Rightarrow> upload_request" where
  "demo_request user token =
     \<lparr>r_user = user, q_token = token, p_tenantId = lit ''t1'', p_scope = lit ''tasks'',
      p_ownerId = lit ''o1'', p_filename = lit ''a.png'', h_origin = None\<rparr>"

definition demo_body :: "jsstring option \<Rightarrow> jsstring option \<Rightarrow> signed_url_body" where
  "demo_body tenant file =
     \<lparr>b_tenantId = tenant, b_scope = Some (lit ''tasks''), b_ownerId = Some (lit ''o1''),
      b_filename = file, b_action = None, b_expiresInMinutes = None\<rparr>"

definition demo_file :: "jsstring option \<Rightarrow> file_entry" where
  "demo_file tenant =
     \<lparr>f_tenantId = tenant, f_scope = Some (lit ''tasks''), f_ownerId = Some (lit ''o1''),
      f_filename = Some (lit ''a.png'')\<rparr>"

text \<open>
  A client whose issuance request succeeds for tenant t1 only, and a server base address.
\<close>

definition demo_client :: client where
  "demo_client =
     \<lparr>generateSignedUrlOnce =
        (\<lambda>m options. if tenantId m = Str (lit ''t1'')
                      then Inr (lit ''/api/v1/files/secure/cGF5bG9hZA.c2ln'')
                      else Inl (Thrown ''Request failed with status code 403'')),
      serverUrl = lit ''https://api.example.com''\<rparr>"

text \<open>A client whose issuance request fails, as when the server cannot be reached.\<close>

definition offline_client :: client where
  "offline_client =
     \<lparr>generateSignedUrlOnce = (\<lambda>m options. Inl (Thrown ''Network Error'')),
      serverUrl = lit ''https://api.example.com''\<rparr>"

text \<open>A grant for a file with a Greek name, \<^verbatim>\<open>U+03B1.png\<close>.\<close>

definition greek_grant :: grant_input where
  "greek_grant =
     \<lparr>g_tenantId = lit ''t1'', g_scope = Some (lit ''tasks''), g_ownerId = lit ''o1'',
      g_filename = Some (945 # lit ''.png''), g_action = lit ''view'', g_expiresInMinutes = None\<rparr>"

section \<open>The recursion bound of the JSON parser\<close>

text \<open>
  Every successful step of the parser consumes input, so a bound of twice the length of
  the text plus one is never used up: \<open>JSON_parse\<close> rejects a text only for its
  syntax.
\<close>

lemma skip_ws_length: "length (skip_ws s) \<le> length s"
  by (simp add: skip_ws_def length_dropWhile_le)

lemma skip_ws_Cons: "skip_ws s = c # r \<Longrightarrow> length r < length s"
  using skip_ws_length [of s] by simp

lemma parse_chars_shorter: "parse_chars s = Some (t, rest) \<Longrightarrow> length rest < length s"
proof (induction s arbitrary: t rest rule: length_induct)
  case (1 s)
  note IH = 1(1) [rule_format]
  show ?case
  proof (cases s)
    case Nil
    with 1(2) show ?thesis by simp
  next
    case (Cons c cs)
    have step: "length rest < length s"
      if "parse_chars ys = Some (t', rest)" and "length ys < length s" for ys t'
      using IH [OF that(2) that(1)] that(2) by simp
    from 1(2) show ?thesis
      unfolding Cons parse_chars.simps
      by (auto split: if_splits list.splits option.splits prod.splits
               dest!: step [unfolded Cons])
  qed
qed


lemma lex_fraction_shorter: "lex_fraction s = Some (f, r) \<Longrightarrow> length r \<le> length s"
  using length_dropWhile_le [of is_digit "tl s"]
  by (auto simp add: lex_fraction_def split: list.splits if_splits)

lemma lex_exponent_shorter: "lex_exponent s = Some (f, r) \<Longrightarrow> length r \<le> length s"
proof (cases s)
  case Nil
  then show "lex_exponent s = Some (f, r) \<Longrightarrow> length r \<le> length s"
    by (simp add: lex_exponent_def)
next
  case (Cons c cs)
  assume a: "lex_exponent s = Some (f, r)"
  show "length r \<le> length s"
  proof (cases "c = 101 \<or> c = 69")
    case False
    with a Cons show ?thesis by (auto simp add: lex_exponent_def)
  next
    case True
    obtain sg r1 where sr: "(case cs of [] \<Rightarrow> ([], cs)
        | x # r' \<Rightarrow> if x = 43 \<or> x = 45 then ([x], r') else ([], cs)) = (sg, r1)"
      by (cases "(case cs of [] \<Rightarrow> ([], cs)
        | x # r' \<Rightarrow> if x = 43 \<or> x = 45 then ([x], r') else ([]::jsstring, cs))") auto
    then have "length r1 \<le> length cs" by (auto split: list.splits if_splits)
    moreover from a Cons True sr have "r = dropWhile is_digit r1"
      by (auto simp add: lex_exponent_def Let_def split: if_splits)
    ultimately show ?thesis using Cons length_dropWhile_le [of is_digit r1] by simp
  qed
qed

lemma lex_number_shorter:
  assumes "lex_number s = Some (t, rest)"
  shows "length rest < length s"
proof -
  obtain sg s1 where ss: "(case s of [] \<Rightarrow> ([], s) | c # r \<Rightarrow> if c = 45 then ([c], r) else ([], s)) = (sg, s1)"
    by (cases "(case s of [] \<Rightarrow> ([]::jsstring, s) | c # r \<Rightarrow> if c = 45 then ([c], r) else ([], s))") auto
  then have l1: "length s1 \<le> length s" by (auto split: list.splits if_splits)
  from assms ss obtain d r where s1: "s1 = d # r" and dg: "is_digit d"
    by (cases s1) (auto simp add: lex_number_def Let_def split: if_splits)
  obtain ip s2 where is2: "(if d = 48 then ([d], r)
          else (d # takeWhile is_digit r, dropWhile is_digit r)) = (ip, s2)"
    by (cases "(if d = 48 then ([d], r)
          else (d # takeWhile is_digit r, dropWhile is_digit r))") auto
  then have l2: "length s2 \<le> length r"
    using length_dropWhile_le [of is_digit r] by (auto split: if_splits)
  from assms ss s1 dg is2 obtain fp s3 where f: "lex_fraction s2 = Some (fp, s3)"
    by (cases "lex_fraction s2") (auto simp add: lex_number_def Let_def)
  from assms ss s1 dg is2 f obtain ep where e: "lex_exponent s3 = Some (ep, rest)"
    by (cases "lex_exponent s3") (auto simp add: lex_number_def Let_def)
  from lex_fraction_shorter [OF f] lex_exponent_shorter [OF e] l1 l2 s1
  show ?thesis by simp
qed

lemma parse_consumes:
  "(\<forall>s v r. parse_value n s = Parsed v r \<longrightarrow> length r < length s)
   \<and> (\<forall>s vs r. parse_elements n s = Parsed vs r \<longrightarrow> length r < length s)
   \<and> (\<forall>s ms r. parse_members n s = Parsed ms r \<longrightarrow> length r < length s)"
proof (induction n)
  case 0
  show ?case by simp
next
  case (Suc n)
  then have V: "\<And>s v r. parse_value n s = Parsed v r \<Longrightarrow> length r < length s"
    and E: "\<And>s vs r. parse_elements n s = Parsed vs r \<Longrightarrow> length r < length s"
    and M: "\<And>s ms r. parse_members n s = Parsed ms r \<Longrightarrow> length r < length s"
    by blast+
  have v: "length r < length s" if "parse_value (Suc n) s = Parsed v r" for s v r
  proof (cases "skip_ws s")
    case Nil
    with that show ?thesis by simp
  next
    case (Cons c r0)
    then have l0: "length r0 < length s" by (rule skip_ws_Cons)
    from Cons have lc: "length (c # r0) \<le> length s" using skip_ws_length [of s] by simp
    from that Cons l0 lc show ?thesis
      by (auto split: if_splits list.splits parsed.splits option.splits prod.splits
               dest!: skip_ws_Cons E M parse_chars_shorter lex_number_shorter)
  qed
  have e: "length r < length s" if "parse_elements (Suc n) s = Parsed vs r" for s vs r
    using that
    by (auto split: if_splits list.splits parsed.splits dest!: V E skip_ws_Cons)
  have m: "length r < length s" if "parse_members (Suc n) s = Parsed ms r" for s ms r
    using that
    by (auto split: if_splits list.splits parsed.splits option.splits prod.splits
             dest!: V M skip_ws_Cons parse_chars_shorter)
  from v e m show ?case by blast
qed


lemmas value_consumes = parse_consumes [THEN conjunct1, rule_format]

lemma parse_fuel:
  "(\<forall>s. 2 * length s < n \<longrightarrow> parse_value n s \<noteq> OutOfFuel)
   \<and> (\<forall>s. 2 * length s + 1 < n \<longrightarrow> parse_elements n s \<noteq> OutOfFuel)
   \<and> (\<forall>s. 2 * length s + 1 < n \<longrightarrow> parse_members n s \<noteq> OutOfFuel)"
proof (induction n)
  case 0
  show ?case by simp
next
  case (Suc n)
  then have V: "\<And>s. 2 * length s < n \<Longrightarrow> parse_value n s \<noteq> OutOfFuel"
    and E: "\<And>s. 2 * length s + 1 < n \<Longrightarrow> parse_elements n s \<noteq> OutOfFuel"
    and M: "\<And>s. 2 * length s + 1 < n \<Longrightarrow> parse_members n s \<noteq> OutOfFuel"
    by blast+
  have v: "parse_value (Suc n) s \<noteq> OutOfFuel" if "2 * length s < Suc n" for s
  proof (cases "skip_ws s")
    case Nil
    then show ?thesis by simp
  next
    case (Cons c r0)
    then have "length r0 < length s" by (rule skip_ws_Cons)
    with that have "2 * length r0 + 1 < n" by simp
    then have "parse_elements n r0 \<noteq> OutOfFuel" and "parse_members n r0 \<noteq> OutOfFuel"
      by (rule E, rule M)
    with Cons show ?thesis
      by (auto split: if_splits list.splits parsed.splits option.splits prod.splits)
  qed
  have e: "parse_elements (Suc n) s \<noteq> OutOfFuel" if "2 * length s + 1 < Suc n" for s
  proof (cases "parse_value n s")
    case OutOfFuel
    with that V [of s] show ?thesis by simp
  next
    case Malformed
    then show ?thesis by simp
  next
    case (Parsed v r)
    then have lr: "length r < length s" by (rule value_consumes)
    show ?thesis
    proof (cases "skip_ws r")
      case Nil
      with Parsed show ?thesis by simp
    next
      case (Cons x r')
      then have "length r' < length r" by (rule skip_ws_Cons)
      with lr that have "2 * length r' + 1 < n" by simp
      then have "parse_elements n r' \<noteq> OutOfFuel" by (rule E)
      with Parsed Cons show ?thesis by (auto split: parsed.splits)
    qed
  qed
  have m: "parse_members (Suc n) s \<noteq> OutOfFuel" if "2 * length s + 1 < Suc n" for s
  proof (cases "skip_ws s")
    case Nil
    then show ?thesis by simp
  next
    case (Cons q r0)
    then have l0: "length r0 < length s" by (rule skip_ws_Cons)
    show ?thesis
    proof (cases "q = 34")
      case False
      with Cons show ?thesis by simp
    next
      case q: True
      show ?thesis
      proof (cases "parse_chars r0")
        case None
        with Cons q show ?thesis by simp
      next
        case (Some kr)
        obtain k r1 where kr: "kr = (k, r1)" by (cases kr)
        with Some have l1: "length r1 < length r0" by (simp add: parse_chars_shorter)
        show ?thesis
        proof (cases "skip_ws r1")
          case Nil
          with Cons q Some kr show ?thesis by simp
        next
          case c2: (Cons colon r2)
          then have l2: "length r2 < length r1" by (rule skip_ws_Cons)
          show ?thesis
          proof (cases "colon = 58")
            case False
            with Cons q Some kr c2 show ?thesis by simp
          next
            case colon: True
            from l0 l1 l2 that have "2 * length r2 < n" by simp
            then have nv: "parse_value n r2 \<noteq> OutOfFuel" by (rule V)
            show ?thesis
            proof (cases "parse_value n r2")
              case OutOfFuel
              with nv show ?thesis by simp
            next
              case Malformed
              with Cons q Some kr c2 colon show ?thesis by simp
            next
              case (Parsed v r)
              then have lr: "length r < length r2" by (rule value_consumes)
              show ?thesis
              proof (cases "skip_ws r")
                case Nil
                with Cons q Some kr c2 colon Parsed show ?thesis by simp
              next
                case c3: (Cons x r')
                then have "length r' < length r" by (rule skip_ws_Cons)
                with lr l0 l1 l2 that have "2 * length r' + 1 < n" by simp
                then have "parse_members n r' \<noteq> OutOfFuel" by (rule M)
                with Cons q Some kr c2 colon Parsed c3 show ?thesis
                  by (auto split: parsed.splits)
              qed
            qed
          qed
        qed
      qed
    qed
  qed
  from v e m show ?case by blast
qed

lemma JSON_parse_fuel: "JSON_parse s \<noteq> Inl (Thrown ''recursion bound'')"
proof -
  have "parse_value (2 * length s + 1) s \<noteq> OutOfFuel"
    using parse_fuel [of "2 * length s + 1"] by simp
  then show ?thesis
    by (cases "parse_value (2 * length s + 1) s")
       (simp_all add: JSON_parse_def del: parse_value.simps)
qed

section \<open>Properties of the serving and issuance routes\<close>

lemma getSecure_expired:
  "\<not> valid (verifySignedUrl e token) \<Longrightarrow> expired (verifySignedUrl e token) \<Longrightarrow>
   getSecure e token origin = ([], send_error 410 ''This link has expired. Please request a new one.'')"
  by (simp add: getSecure_def Let_def)

lemma getSecure_invalid:
  "\<not> valid (verifySignedUrl e token) \<Longrightarrow> \<not> expired (verifySignedUrl e token) \<Longrightarrow>
   getSecure e token origin = ([], send_error 403 ''Invalid or tampered URL'')"
  by (simp add: getSecure_def Let_def)

lemma getSecure_missing:
  "valid (verifySignedUrl e token) \<Longrightarrow>
   v_tenantId (verifySignedUrl e token) = Some t \<Longrightarrow> v_scope (verifySignedUrl e token) = Some s \<Longrightarrow>
   v_ownerId (verifySignedUrl e token) = Some ow \<Longrightarrow> v_filename (verifySignedUrl e token) = Some f \<Longrightarrow>
   \<not> fs_access e (path_join e [cwd e, lit ''uploads'', t, s, ow, f]) \<Longrightarrow>
   getSecure e token origin = ([FsAccess (path_join e [cwd e, lit ''uploads'', t, s, ow, f])], send_error 404 ''File not found'')"
  by (simp add: getSecure_def Let_def)

lemma status_send_error: "replied_status (effs, send_error c m) = Some c"
  by (simp add: replied_status_def send_error_def)

lemma streams_send_error: "\<not> streams_file (effs, send_error c m)"
  by (simp add: streams_file_def send_error_def)

text \<open>
  Claim C3. On \<^verbatim>\<open>GET /files/secure/{token}\<close>: a token that verification reports invalid
  and expired is answered 410; one reported invalid and not expired is answered 403; one
  that verifies, with its four path fields, for a file that is not on disk is answered 404.
  None of the three replies streams a file.
\<close>

theorem C3_secure_serving_statuses:
  "(\<not> valid (verifySignedUrl e token) \<and> expired (verifySignedUrl e token) \<longrightarrow>
      replied_status (getSecure e token origin) = Some 410 \<and> \<not> streams_file (getSecure e token origin))
   \<and> (\<not> valid (verifySignedUrl e token) \<and> \<not> expired (verifySignedUrl e token) \<longrightarrow>
      replied_status (getSecure e token origin) = Some 403 \<and> \<not> streams_file (getSecure e token origin))
   \<and> (valid (verifySignedUrl e token)
       \<and> v_tenantId (verifySignedUrl e token) = Some t \<and> v_scope (verifySignedUrl e token) = Some s
       \<and> v_ownerId (verifySignedUrl e token) = Some ow \<and> v_filename (verifySignedUrl e token) = Some f
       \<and> \<not> fs_access e (path_join e [cwd e, lit ''uploads'', t, s, ow, f]) \<longrightarrow>
      replied_status (getSecure e token origin) = Some 404 \<and> \<not> streams_file (getSecure e token origin))"
  by (simp add: getSecure_expired getSecure_invalid getSecure_missing status_send_error streams_send_error)

text \<open>The definitions of the concrete deployment, for evaluation.\<close>

lemmas demo = demo_env_def demo_verify_def demo_jwt_def demo_user_def demo_request_def demo_body_def
  demo_file_def lit_def

theorem C3_secure_serving_statuses_witness:
  "replied_status (getSecure demo_env (lit ''old'') None) = Some 410
   \<and> \<not> streams_file (getSecure demo_env (lit ''old'') None)
   \<and> replied_status (getSecure demo_env (lit ''forged'') None) = Some 403
   \<and> \<not> streams_file (getSecure demo_env (lit ''forged'') None)
   \<and> replied_status (getSecure demo_env (lit ''gone'') None) = Some 404
   \<and> \<not> streams_file (getSecure demo_env (lit ''gone'') None)
   \<and> streams_file (getSecure demo_env (lit ''good'') None)"
proof -
  have old: "\<not> valid (verifySignedUrl demo_env (lit ''old'')) \<and> expired (verifySignedUrl demo_env (lit ''old''))"
    by (simp add: demo)
  have forged: "\<not> valid (verifySignedUrl demo_env (lit ''forged'')) \<and> \<not> expired (verifySignedUrl demo_env (lit ''forged''))"
    by (simp add: demo)
  have gone: "valid (verifySignedUrl demo_env (lit ''gone''))
       \<and> v_tenantId (verifySignedUrl demo_env (lit ''gone'')) = Some (lit ''t1'')
       \<and> v_scope (verifySignedUrl demo_env (lit ''gone'')) = Some (lit ''tasks'')
       \<and> v_ownerId (verifySignedUrl demo_env (lit ''gone'')) = Some (lit ''o1'')
       \<and> v_filename (verifySignedUrl demo_env (lit ''gone'')) = Some (lit ''b.png'')
       \<and> \<not> fs_access demo_env (path_join demo_env [cwd demo_env, lit ''uploads'', lit ''t1'', lit ''tasks'', lit ''o1'', lit ''b.png''])"
    by (simp add: demo)
  have good: "streams_file (getSecure demo_env (lit ''good'') None)"
    by (simp add: demo getSecure_def streams_file_def Let_def)
  from C3_secure_serving_statuses [of demo_env "lit ''old''" None] old
       C3_secure_serving_statuses [of demo_env "lit ''forged''" None] forged
       C3_secure_serving_statuses [where e = demo_env and token = "lit ''gone''" and t = "lit ''t1''"
         and s = "lit ''tasks''" and ow = "lit ''o1''" and f = "lit ''b.png''" and origin = None] gone
       good
  show ?thesis by blast
qed

lemma postSignedUrl_missing:
  "\<not> truthy (b_filename b) \<or> \<not> truthy (b_scope b) \<or> \<not> truthy (b_ownerId b) \<Longrightarrow>
   postSignedUrl e user b = ([], send_error 400 ''Missing required fields: filename, scope, ownerId'')"
  by (auto simp add: postSignedUrl_def Let_def)

lemma postSignedUrl_foreign:
  "truthy (b_filename b) \<Longrightarrow> truthy (b_scope b) \<Longrightarrow> truthy (b_ownerId b) \<Longrightarrow>
   truthy (b_tenantId b) \<Longrightarrow> js_String (b_tenantId b) \<noteq> js_String (u_tenantId user) \<Longrightarrow>
   postSignedUrl e user b = ([], send_error 403 ''Access denied: You don't have access to this tenant's files'')"
  by (auto simp add: postSignedUrl_def Let_def js_or_def)


lemma batch_foreign:
  assumes "bb_files bb = Some files" and "f \<in> set files" and "truthy (f_tenantId f)"
    and "js_String (f_tenantId f) \<noteq> js_String (u_tenantId user)"
  shows "postSignedUrlsBatch e user bb = ([], send_error 403 ''Access denied: Some files don't belong to your tenant'')"
proof -
  have "foreign_file user f" using assms(3,4) by (simp add: foreign_file_def js_or_def)
  with assms(2) have "filter (foreign_file user) files \<noteq> []"
    by (auto simp add: filter_empty_conv)
  moreover from assms(2) have "files \<noteq> []" by auto
  ultimately show ?thesis using assms(1)
    by (simp add: postSignedUrlsBatch_def Let_def)
qed

text \<open>
  Claim C4, as amended. On \<^verbatim>\<open>POST /signed-url\<close>, a body whose \<^verbatim>\<open>tenantId\<close> is a
  non-empty string other than the caller's tenant is refused without any effect (no file
  check, no call of \<^verbatim>\<open>generateSignedUrl\<close>): with 403 when \<^verbatim>\<open>filename\<close>,
  \<^verbatim>\<open>scope\<close> and \<^verbatim>\<open>ownerId\<close> are all present, with 400 otherwise. On
  \<^verbatim>\<open>POST /signed-urls/batch\<close>, a files array with an entry whose \<^verbatim>\<open>tenantId\<close> is
  a non-empty string other than the caller's tenant is answered 403, without any effect.
\<close>

theorem C4_foreign_tenant_is_refused:
  "(truthy (b_tenantId b) \<and> js_String (b_tenantId b) \<noteq> js_String (u_tenantId user) \<longrightarrow>
      fst (postSignedUrl e user b) = []
      \<and> replied_status (postSignedUrl e user b)
          = Some (if truthy (b_filename b) \<and> truthy (b_scope b) \<and> truthy (b_ownerId b) then 403 else 400))
   \<and> (bb_files bb = Some files
       \<and> (\<exists>f \<in> set files. truthy (f_tenantId f) \<and> js_String (f_tenantId f) \<noteq> js_String (u_tenantId user)) \<longrightarrow>
      fst (postSignedUrlsBatch e user bb) = []
      \<and> replied_status (postSignedUrlsBatch e user bb) = Some 403)"
proof (intro conjI impI)
  assume a: "truthy (b_tenantId b) \<and> js_String (b_tenantId b) \<noteq> js_String (u_tenantId user)"
  show "fst (postSignedUrl e user b) = []"
  proof (cases "truthy (b_filename b) \<and> truthy (b_scope b) \<and> truthy (b_ownerId b)")
    case True then show ?thesis using a by (simp add: postSignedUrl_foreign)
  next
    case False then show ?thesis by (simp add: postSignedUrl_missing)
  qed
  show "replied_status (postSignedUrl e user b)
          = Some (if truthy (b_filename b) \<and> truthy (b_scope b) \<and> truthy (b_ownerId b) then 403 else 400)"
  proof (cases "truthy (b_filename b) \<and> truthy (b_scope b) \<and> truthy (b_ownerId b)")
    case True then show ?thesis using a by (simp add: postSignedUrl_foreign status_send_error)
  next
    case False then show ?thesis by (simp add: postSignedUrl_missing status_send_error)
  qed
next
  assume b: "bb_files bb = Some files
       \<and> (\<exists>f \<in> set files. truthy (f_tenantId f) \<and> js_String (f_tenantId f) \<noteq> js_String (u_tenantId user))"
  then obtain f where f: "f \<in> set files" "truthy (f_tenantId f)"
      "js_String (f_tenantId f) \<noteq> js_String (u_tenantId user)" by blast
  from b f have eq: "postSignedUrlsBatch e user bb = ([], send_error 403 ''Access denied: Some files don't belong to your tenant'')"
    by (simp add: batch_foreign)
  show "fst (postSignedUrlsBatch e user bb) = []" by (simp add: eq)
  show "replied_status (postSignedUrlsBatch e user bb) = Some 403" by (simp add: eq status_send_error)
qed

text \<open>
  The theorem at a request of tenant t1 for a file of tenant t2, alone and in a batch.
\<close>

theorem C4_foreign_tenant_is_refused_witness:
  "fst (postSignedUrl demo_env demo_user (demo_body (Some (lit ''t2'')) (Some (lit ''a.png'')))) = []
   \<and> replied_status (postSignedUrl demo_env demo_user (demo_body (Some (lit ''t2'')) (Some (lit ''a.png'')))) = Some 403
   \<and> fst (postSignedUrlsBatch demo_env demo_user
        \<lparr>bb_files = Some [demo_file None, demo_file (Some (lit ''t2''))], bb_action = None,
         bb_expiresInMinutes = None\<rparr>) = []
   \<and> replied_status (postSignedUrlsBatch demo_env demo_user
        \<lparr>bb_files = Some [demo_file None, demo_file (Some (lit ''t2''))], bb_action = None,
         bb_expiresInMinutes = None\<rparr>) = Some 403"
proof -
  have h1: "truthy (b_tenantId (demo_body (Some (lit ''t2'')) (Some (lit ''a.png''))))
     \<and> js_String (b_tenantId (demo_body (Some (lit ''t2'')) (Some (lit ''a.png'')))) \<noteq> js_String (u_tenantId demo_user)"
    by (simp add: demo)
  have h2: "bb_files \<lparr>bb_files = Some [demo_file None, demo_file (Some (lit ''t2''))], bb_action = None,
         bb_expiresInMinutes = None\<rparr> = Some [demo_file None, demo_file (Some (lit ''t2''))]
     \<and> (\<exists>f \<in> set [demo_file None, demo_file (Some (lit ''t2''))].
           truthy (f_tenantId f) \<and> js_String (f_tenantId f) \<noteq> js_String (u_tenantId demo_user))"
    by (simp add: demo)
  have h3: "truthy (b_filename (demo_body (Some (lit ''t2'')) (Some (lit ''a.png''))))
     \<and> truthy (b_scope (demo_body (Some (lit ''t2'')) (Some (lit ''a.png''))))
     \<and> truthy (b_ownerId (demo_body (Some (lit ''t2'')) (Some (lit ''a.png''))))"
    by (simp add: demo)
  from C4_foreign_tenant_is_refused [where e = demo_env and user = demo_user
        and b = "demo_body (Some (lit ''t2'')) (Some (lit ''a.png''))"
        and bb = "\<lparr>bb_files = Some [demo_file None, demo_file (Some (lit ''t2''))], bb_action = None,
         bb_expiresInMinutes = None\<rparr>"
        and files = "[demo_file None, demo_file (Some (lit ''t2''))]"] h1 h2 h3
  show ?thesis by auto
qed

text \<open>
  Claim C4 as stated fails: a body that names the foreign tenant t2 and has no
  \<^verbatim>\<open>filename\<close> is answered 400, not 403.
\<close>

theorem C4_counterexample:
  "truthy (b_tenantId (demo_body (Some (lit ''t2'')) None))
   \<and> js_String (b_tenantId (demo_body (Some (lit ''t2'')) None)) \<noteq> js_String (u_tenantId demo_user)
   \<and> replied_status (postSignedUrl demo_env demo_user (demo_body (Some (lit ''t2'')) None)) = Some 400"
  by (simp add: demo postSignedUrl_def replied_status_def send_error_def Let_def)




















section \<open>Properties of the migration helper\<close>

lemma js_includes_head: "js_includes s (c # p) \<Longrightarrow> c \<in> set s"
  by (induction s) auto

lemma isOldTokenUrl_chars: "isOldTokenUrl (Some u) \<Longrightarrow> 63 \<in> set u \<or> 38 \<in> set u"
  by (auto simp add: isOldTokenUrl_def lit_def split: if_splits dest: js_includes_head)

lemma convert_not_legacy: "\<not> isOldTokenUrl (Some r) \<Longrightarrow> convertToSignedUrl cl (Some r) opts = Inr r"
  by (simp add: convertToSignedUrl_def)

lemma convert_returns: "\<exists>r. convertToSignedUrl cl url opts = Inr r"
  by (simp add: convertToSignedUrl_def split: option.splits sum.splits)

lemma convert_no_metadata:
  "isOldTokenUrl (Some u) \<Longrightarrow> extractFileMetadataFromUrl u = None \<Longrightarrow>
   convertToSignedUrl cl (Some u) opts = Inr u"
  by (auto simp add: convertToSignedUrl_def convert_attempt_def)

lemma convert_issuance_fails:
  "isOldTokenUrl (Some u) \<Longrightarrow> extractFileMetadataFromUrl u = Some m \<Longrightarrow>
   generateSignedUrlOnce cl m opts = Inl err \<Longrightarrow> convertToSignedUrl cl (Some u) opts = Inr u"
  by (auto simp add: convertToSignedUrl_def convert_attempt_def)

lemma convert_issued:
  "isOldTokenUrl (Some u) \<Longrightarrow> extractFileMetadataFromUrl u = Some m \<Longrightarrow>
   generateSignedUrlOnce cl m opts = Inr s \<Longrightarrow>
   convertToSignedUrl cl (Some u) opts
     = Inr (if js_startsWith s (lit ''http'') then s else serverUrl cl @ s)"
  by (auto simp add: convertToSignedUrl_def convert_attempt_def isOldTokenUrl_def split: if_splits)

text \<open>
  Claim C10. For an undefined and for an empty \<^verbatim>\<open>url\<close>, \<^verbatim>\<open>convertToSignedUrl\<close>
  returns the empty string, whatever the client and the options.
\<close>

theorem C10_no_url_gives_empty_string:
  "convertToSignedUrl cl None opts = Inr (lit '''') \<and> convertToSignedUrl cl (Some (lit '''')) opts = Inr (lit '''')"
  by (simp add: convertToSignedUrl_def lit_def)

text \<open>
  The theorem at the concrete client.
\<close>

theorem C10_no_url_gives_empty_string_witness:
  "convertToSignedUrl demo_client None None = Inr [] \<and> convertToSignedUrl demo_client (Some []) None = Inr []"
  using C10_no_url_gives_empty_string [of demo_client None] by (simp add: lit_def)

text \<open>
  Claim C5. \<^verbatim>\<open>convertToSignedUrl\<close> returns a string for every input and never
  raises; for a legacy URL whose metadata extraction returns null it returns the URL
  unchanged, and for one whose issuance request rejects it returns the URL unchanged.
\<close>

theorem C5_convert_never_raises:
  "(\<exists>r. convertToSignedUrl cl url opts = Inr r)
   \<and> (isOldTokenUrl (Some u) \<and> extractFileMetadataFromUrl u = None \<longrightarrow>
        convertToSignedUrl cl (Some u) opts = Inr u)
   \<and> (isOldTokenUrl (Some u) \<and> extractFileMetadataFromUrl u = Some m
       \<and> generateSignedUrlOnce cl m opts = Inl err \<longrightarrow>
        convertToSignedUrl cl (Some u) opts = Inr u)"
  using convert_returns [of cl url opts] convert_no_metadata [of u cl opts]
    convert_issuance_fails [of u m cl opts err]
  by blast

lemma convert_not_legacy_input:
  "\<not> isOldTokenUrl url \<Longrightarrow>
   \<exists>r. convertToSignedUrl cl url opts = Inr r \<and> \<not> isOldTokenUrl (Some r)"
proof (cases url)
  case None
  then show ?thesis by (simp add: convertToSignedUrl_def isOldTokenUrl_def)
next
  case (Some a)
  assume n: "\<not> isOldTokenUrl url"
  with Some have "convertToSignedUrl cl url opts = Inr a" by (simp add: convert_not_legacy)
  with n Some show ?thesis by simp
qed

lemma convert_retry:
  "isOldTokenUrl (Some u) \<Longrightarrow> extractFileMetadataFromUrl u = Some m \<Longrightarrow>
   convertToSignedUrl cl (Some u) opts
     = (case generateSignedUrlOnce cl m opts of
          Inl err \<Rightarrow> Inr u
        | Inr s \<Rightarrow> Inr (if js_startsWith s (lit ''http'') then s else serverUrl cl @ s))"
  by (cases "generateSignedUrlOnce cl m opts") (simp_all add: convert_issuance_fails convert_issued)

lemma assembled_not_legacy:
  assumes "63 \<notin> set s" and "38 \<notin> set s"
    and "js_startsWith s (lit ''http'') \<or> (63 \<notin> set base \<and> 38 \<notin> set base)"
  shows "\<not> isOldTokenUrl (Some (if js_startsWith s (lit ''http'') then s else base @ s))"
  using assms isOldTokenUrl_chars [of "if js_startsWith s (lit ''http'') then s else base @ s"]
  by auto

lemma b64url_char_clean: "b64url_char v \<noteq> 63 \<and> b64url_char v \<noteq> 38"
  by (simp add: b64url_char_def) arith

lemma base64url_clean: "63 \<notin> set (base64url octets) \<and> 38 \<notin> set (base64url octets)"
  using b64url_char_clean by (auto simp add: base64url_def)

lemma issue_url_clean:
  assumes "issue sign now g = Inr d"
  shows "63 \<notin> set (sd_url d) \<and> 38 \<notin> set (sd_url d)"
proof -
  from assms obtain grant where "sd_url d = lit ''/files/secure/'' @ encode sign grant"
    by (auto simp add: issue_def Let_def split: if_splits)
  then show ?thesis
    using base64url_clean by (simp add: encode_def Let_def lit_def)
qed

text \<open>
  Claim C2, as amended. The issuance request \<^verbatim>\<open>generateSignedUrlOnce\<close> is made anew
  by every call that reaches it, so the two calls of
  \<^verbatim>\<open>convertToSignedUrl(convertToSignedUrl(url))\<close> are taken with the client as it is
  at the first call, \<open>cl\<close>, and as it is at the second, \<open>cl'\<close>.
  \<^verbatim>\<open>convertToSignedUrl\<close> returns a string \<open>r\<close> for every input. If \<open>r\<close> is
  no legacy URL, the second call returns \<open>r\<close> unchanged, whatever the client then
  answers; this is so for an absent, an empty and a non-legacy input. A legacy URL from
  which no metadata can be extracted is returned unchanged by both calls, though it is
  still a legacy URL. A legacy URL for which the first request issues \<open>s\<close> is converted
  to \<open>s\<close>, prefixed with \<^verbatim>\<open>CONFIG.serverUrl\<close> unless it starts with \<^verbatim>\<open>http\<close>; if
  \<open>s\<close> (and the prefix, when used) contains neither \<^verbatim>\<open>?\<close> nor \<^verbatim>\<open>&\<close>, the
  converted URL is no legacy URL and the second call returns it unchanged. When the first
  request fails, the result is the input, still a legacy URL, and the second call repeats
  the request: it returns the input again if that request fails too, and the newly
  issued URL otherwise. The URL that the issuance of section 4.2 builds contains neither
  \<^verbatim>\<open>?\<close> nor \<^verbatim>\<open>&\<close>.
\<close>

theorem C2_convert_idempotent:
  "(\<exists>r. convertToSignedUrl cl url opts = Inr r)
   \<and> (convertToSignedUrl cl url opts = Inr r \<and> \<not> isOldTokenUrl (Some r) \<longrightarrow>
        convertToSignedUrl cl' (Some r) opts' = Inr r)
   \<and> (\<not> isOldTokenUrl url \<longrightarrow>
        (\<exists>r. convertToSignedUrl cl url opts = Inr r \<and> \<not> isOldTokenUrl (Some r)
              \<and> convertToSignedUrl cl' (Some r) opts' = Inr r))
   \<and> (isOldTokenUrl (Some u) \<and> extractFileMetadataFromUrl u = None \<longrightarrow>
        convertToSignedUrl cl (Some u) opts = Inr u
        \<and> convertToSignedUrl cl' (Some u) opts' = Inr u)
   \<and> (isOldTokenUrl (Some u) \<and> extractFileMetadataFromUrl u = Some m
       \<and> generateSignedUrlOnce cl m opts = Inr s \<longrightarrow>
        convertToSignedUrl cl (Some u) opts
          = Inr (if js_startsWith s (lit ''http'') then s else serverUrl cl @ s)
        \<and> (63 \<notin> set s \<and> 38 \<notin> set s
            \<and> (js_startsWith s (lit ''http'') \<or> (63 \<notin> set (serverUrl cl) \<and> 38 \<notin> set (serverUrl cl)))
            \<longrightarrow>
            \<not> isOldTokenUrl (Some (if js_startsWith s (lit ''http'') then s else serverUrl cl @ s))
            \<and> convertToSignedUrl cl' (Some (if js_startsWith s (lit ''http'') then s else serverUrl cl @ s)) opts'
                = Inr (if js_startsWith s (lit ''http'') then s else serverUrl cl @ s)))
   \<and> (isOldTokenUrl (Some u) \<and> extractFileMetadataFromUrl u = Some m
       \<and> generateSignedUrlOnce cl m opts = Inl err \<longrightarrow>
        convertToSignedUrl cl (Some u) opts = Inr u
        \<and> convertToSignedUrl cl' (Some u) opts'
            = (case generateSignedUrlOnce cl' m opts' of
                 Inl err' \<Rightarrow> Inr u
               | Inr s' \<Rightarrow> Inr (if js_startsWith s' (lit ''http'') then s' else serverUrl cl' @ s')))
   \<and> (issue sign now g = Inr d \<longrightarrow> 63 \<notin> set (sd_url d) \<and> 38 \<notin> set (sd_url d))"
proof (intro conjI)
  show "\<exists>r. convertToSignedUrl cl url opts = Inr r" by (rule convert_returns)
  show "convertToSignedUrl cl url opts = Inr r \<and> \<not> isOldTokenUrl (Some r) \<longrightarrow>
        convertToSignedUrl cl' (Some r) opts' = Inr r"
    by (simp add: convert_not_legacy)
  show "\<not> isOldTokenUrl url \<longrightarrow>
        (\<exists>r. convertToSignedUrl cl url opts = Inr r \<and> \<not> isOldTokenUrl (Some r)
              \<and> convertToSignedUrl cl' (Some r) opts' = Inr r)"
    using convert_not_legacy_input [of url cl opts] convert_not_legacy [of _ cl' opts'] by blast
  show "isOldTokenUrl (Some u) \<and> extractFileMetadataFromUrl u = None \<longrightarrow>
        convertToSignedUrl cl (Some u) opts = Inr u
        \<and> convertToSignedUrl cl' (Some u) opts' = Inr u"
    by (simp add: convert_no_metadata)
  show "isOldTokenUrl (Some u) \<and> extractFileMetadataFromUrl u = Some m
       \<and> generateSignedUrlOnce cl m opts = Inr s \<longrightarrow>
        convertToSignedUrl cl (Some u) opts
          = Inr (if js_startsWith s (lit ''http'') then s else serverUrl cl @ s)
        \<and> (63 \<notin> set s \<and> 38 \<notin> set s
            \<and> (js_startsWith s (lit ''http'') \<or> (63 \<notin> set (serverUrl cl) \<and> 38 \<notin> set (serverUrl cl)))
            \<longrightarrow>
            \<not> isOldTokenUrl (Some (if js_startsWith s (lit ''http'') then s else serverUrl cl @ s))
            \<and> convertToSignedUrl cl' (Some (if js_startsWith s (lit ''http'') then s else serverUrl cl @ s)) opts'
                = Inr (if js_startsWith s (lit ''http'') then s else serverUrl cl @ s))"
  proof (intro impI conjI)
    assume a: "isOldTokenUrl (Some u) \<and> extractFileMetadataFromUrl u = Some m
       \<and> generateSignedUrlOnce cl m opts = Inr s"
    then show "convertToSignedUrl cl (Some u) opts
          = Inr (if js_startsWith s (lit ''http'') then s else serverUrl cl @ s)"
      using convert_issued [of u m cl opts s] by blast
    assume c: "63 \<notin> set s \<and> 38 \<notin> set s
            \<and> (js_startsWith s (lit ''http'') \<or> (63 \<notin> set (serverUrl cl) \<and> 38 \<notin> set (serverUrl cl)))"
    then show n: "\<not> isOldTokenUrl (Some (if js_startsWith s (lit ''http'') then s else serverUrl cl @ s))"
      using assembled_not_legacy [of s "serverUrl cl"] by blast
    then show "convertToSignedUrl cl' (Some (if js_startsWith s (lit ''http'') then s else serverUrl cl @ s)) opts'
                = Inr (if js_startsWith s (lit ''http'') then s else serverUrl cl @ s)"
      by (rule convert_not_legacy)
  qed
  show "isOldTokenUrl (Some u) \<and> extractFileMetadataFromUrl u = Some m
       \<and> generateSignedUrlOnce cl m opts = Inl err \<longrightarrow>
        convertToSignedUrl cl (Some u) opts = Inr u
        \<and> convertToSignedUrl cl' (Some u) opts'
            = (case generateSignedUrlOnce cl' m opts' of
                 Inl err' \<Rightarrow> Inr u
               | Inr s' \<Rightarrow> Inr (if js_startsWith s' (lit ''http'') then s' else serverUrl cl' @ s'))"
    using convert_issuance_fails [of u m cl opts err] convert_retry [of u m cl' opts'] by blast
  show "issue sign now g = Inr d \<longrightarrow> 63 \<notin> set (sd_url d) \<and> 38 \<notin> set (sd_url d)"
    using issue_url_clean [of sign now g d] by blast
qed

text \<open>Evaluation of the extraction on concrete URLs.\<close>

lemmas extract_eval = extractFileMetadataFromUrl_def signed_branch_def legacy_branch_def decode_token_def
  decodeURIComponent_def hex_val_def Let_def

lemma demo_plain_legacy: "isOldTokenUrl (Some (lit ''https://api.example.com/health?token=abc''))
  \<and> extractFileMetadataFromUrl (lit ''https://api.example.com/health?token=abc'') = None"
  by (simp add: lit_def isOldTokenUrl_def extract_eval)

lemma demo_t2_legacy: "isOldTokenUrl (Some (lit ''/api/v1/uploads/t2/tasks/o1/a.png?token=abc''))
  \<and> extractFileMetadataFromUrl (lit ''/api/v1/uploads/t2/tasks/o1/a.png?token=abc'')
     = Some \<lparr>filename = Str (lit ''a.png''), scope = Str (lit ''tasks''), ownerId = Str (lit ''o1''), tenantId = Str (lit ''t2'')\<rparr>"
  by (simp add: lit_def isOldTokenUrl_def extract_eval)

lemma demo_t1_legacy: "isOldTokenUrl (Some (lit ''/api/v1/uploads/t1/tasks/o1/a.png?token=abc''))
  \<and> extractFileMetadataFromUrl (lit ''/api/v1/uploads/t1/tasks/o1/a.png?token=abc'')
     = Some \<lparr>filename = Str (lit ''a.png''), scope = Str (lit ''tasks''), ownerId = Str (lit ''o1''), tenantId = Str (lit ''t1'')\<rparr>"
  by (simp add: lit_def isOldTokenUrl_def extract_eval)

text \<open>
  The theorem at a legacy URL without an uploads path, and at one of tenant t2, for which
  the issuance request of the concrete client rejects.
\<close>

theorem C5_convert_never_raises_witness:
  "convertToSignedUrl demo_client (Some (lit ''https://api.example.com/health?token=abc'')) None
     = Inr (lit ''https://api.example.com/health?token=abc'')
   \<and> convertToSignedUrl demo_client (Some (lit ''/api/v1/uploads/t2/tasks/o1/a.png?token=abc'')) None
     = Inr (lit ''/api/v1/uploads/t2/tasks/o1/a.png?token=abc'')"
proof -
  have fails: "generateSignedUrlOnce demo_client
      \<lparr>filename = Str (lit ''a.png''), scope = Str (lit ''tasks''), ownerId = Str (lit ''o1''), tenantId = Str (lit ''t2'')\<rparr> None
      = Inl (Thrown ''Request failed with status code 403'')"
    by (simp add: demo_client_def lit_def)
  from C5_convert_never_raises [where cl = demo_client and opts = None
        and u = "lit ''https://api.example.com/health?token=abc''", THEN conjunct2, THEN conjunct1, rule_format, OF demo_plain_legacy]
       C5_convert_never_raises [where cl = demo_client and opts = None
        and u = "lit ''/api/v1/uploads/t2/tasks/o1/a.png?token=abc''", THEN conjunct2, THEN conjunct2, rule_format,
        OF conjI [OF demo_t2_legacy [THEN conjunct1] conjI [OF demo_t2_legacy [THEN conjunct2] fails]]]
  show ?thesis by (rule conjI)
qed

text \<open>
  The theorem at a legacy URL of tenant t1, converted by the concrete client and then
  left unchanged by a second call made while the request fails; at the same URL with the
  failing client; at a legacy URL without an uploads path; at a URL that is not legacy;
  and at the URL issued for the stored file.
\<close>

theorem C2_convert_idempotent_witness:
  "convertToSignedUrl demo_client (Some (lit ''/api/v1/uploads/t1/tasks/o1/a.png?token=abc'')) None
     = Inr (lit ''https://api.example.com/api/v1/files/secure/cGF5bG9hZA.c2ln'')
   \<and> \<not> isOldTokenUrl (Some (lit ''https://api.example.com/api/v1/files/secure/cGF5bG9hZA.c2ln''))
   \<and> convertToSignedUrl offline_client (Some (lit ''https://api.example.com/api/v1/files/secure/cGF5bG9hZA.c2ln'')) None
     = Inr (lit ''https://api.example.com/api/v1/files/secure/cGF5bG9hZA.c2ln'')
   \<and> convertToSignedUrl offline_client (Some (lit ''/api/v1/uploads/t1/tasks/o1/a.png?token=abc'')) None
     = Inr (lit ''/api/v1/uploads/t1/tasks/o1/a.png?token=abc'')
   \<and> convertToSignedUrl offline_client (Some (lit ''https://api.example.com/health?token=abc'')) None
     = Inr (lit ''https://api.example.com/health?token=abc'')
   \<and> convertToSignedUrl demo_client (Some (lit ''https://api.example.com/health?token=abc'')) None
     = Inr (lit ''https://api.example.com/health?token=abc'')
   \<and> (\<exists>r. convertToSignedUrl demo_client (Some (lit ''/logo.png'')) None = Inr r
          \<and> \<not> isOldTokenUrl (Some r)
          \<and> convertToSignedUrl offline_client (Some r) None = Inr r)
   \<and> 63 \<notin> set (lit ''/files/secure/''
                  @ encode (\<lambda>p. [1, 2, 3])
                      \<lparr>ag_tenantId = lit ''t1'', ag_scope = lit ''tasks'', ag_ownerId = lit ''o1'',
                       ag_filename = lit ''a.png'', ag_action = lit ''view'',
                       ag_issuedAt = 1700000000000, ag_expiresAt = 1700003600000\<rparr>)"
proof -
  let ?u = "lit ''/api/v1/uploads/t1/tasks/o1/a.png?token=abc''"
  let ?h = "lit ''https://api.example.com/health?token=abc''"
  let ?H = "lit ''https://api.example.com/api/v1/files/secure/cGF5bG9hZA.c2ln''"
  let ?s = "lit ''/api/v1/files/secure/cGF5bG9hZA.c2ln''"
  let ?m = "\<lparr>filename = Str (lit ''a.png''), scope = Str (lit ''tasks''), ownerId = Str (lit ''o1''), tenantId = Str (lit ''t1'')\<rparr>"
  let ?g = "\<lparr>g_tenantId = lit ''t1'', g_scope = Some (lit ''tasks''), g_ownerId = lit ''o1'',
             g_filename = Some (lit ''a.png''), g_action = lit ''view'', g_expiresInMinutes = None\<rparr>"
  let ?d = "\<lparr>sd_url = lit ''/files/secure/''
                  @ encode (\<lambda>p. [1, 2, 3])
                      \<lparr>ag_tenantId = lit ''t1'', ag_scope = lit ''tasks'', ag_ownerId = lit ''o1'',
                       ag_filename = lit ''a.png'', ag_action = lit ''view'',
                       ag_issuedAt = 1700000000000, ag_expiresAt = 1700003600000\<rparr>,
             sd_expiresAt = 1700003600000\<rparr>"
  have issued: "generateSignedUrlOnce demo_client ?m None = Inr ?s"
    by (simp add: demo_client_def)
  have failed: "generateSignedUrlOnce offline_client ?m None = Inl (Thrown ''Network Error'')"
    by (simp add: offline_client_def)
  have clean: "63 \<notin> set ?s \<and> 38 \<notin> set ?s
      \<and> (js_startsWith ?s (lit ''http'')
          \<or> (63 \<notin> set (serverUrl demo_client) \<and> 38 \<notin> set (serverUrl demo_client)))"
    by (simp add: demo_client_def lit_def)
  have assembled: "(if js_startsWith ?s (lit ''http'') then ?s else serverUrl demo_client @ ?s) = ?H"
    by (simp add: demo_client_def lit_def)
  have plain: "\<not> isOldTokenUrl (Some (lit ''/logo.png''))"
    by (simp add: isOldTokenUrl_def lit_def)
  have iss: "issue (\<lambda>p. [1, 2, 3]) 1700000000000 ?g = Inr ?d"
    by (simp add: issue_def Let_def lit_def)
  note conv = C2_convert_idempotent [where cl = demo_client and cl' = offline_client and opts = None
      and opts' = None and u = ?u and m = ?m and s = ?s,
      THEN conjunct2, THEN conjunct2, THEN conjunct2, THEN conjunct2, THEN conjunct1, rule_format,
      OF conjI [OF demo_t1_legacy [THEN conjunct1] conjI [OF demo_t1_legacy [THEN conjunct2] issued]],
      unfolded assembled]
  note first = conv [THEN conjunct1]
  note second = conv [THEN conjunct2, rule_format, OF clean]
  note fallback = C2_convert_idempotent [where cl = offline_client and cl' = demo_client and opts = None
      and opts' = None and u = ?u and m = ?m,
      THEN conjunct2, THEN conjunct2, THEN conjunct2, THEN conjunct2, THEN conjunct2, THEN conjunct1,
      rule_format,
      OF conjI [OF demo_t1_legacy [THEN conjunct1] conjI [OF demo_t1_legacy [THEN conjunct2] failed]],
      THEN conjunct1]
  note nometa = C2_convert_idempotent [where cl = offline_client and cl' = demo_client and opts = None
      and opts' = None and u = ?h,
      THEN conjunct2, THEN conjunct2, THEN conjunct2, THEN conjunct1, rule_format, OF demo_plain_legacy]
  note noop = C2_convert_idempotent [where cl = demo_client and cl' = offline_client and opts = None
      and opts' = None and url = "Some (lit ''/logo.png'')",
      THEN conjunct2, THEN conjunct2, THEN conjunct1, rule_format, OF plain]
  note spec = C2_convert_idempotent [where sign = "\<lambda>p. [1, 2, 3]" and now = 1700000000000 and g = ?g and d = ?d,
      THEN conjunct2, THEN conjunct2, THEN conjunct2, THEN conjunct2, THEN conjunct2, THEN conjunct2,
      rule_format, OF iss, THEN conjunct1]
  from spec have spec': "63 \<notin> set (lit ''/files/secure/''
                  @ encode (\<lambda>p. [1, 2, 3])
                      \<lparr>ag_tenantId = lit ''t1'', ag_scope = lit ''tasks'', ag_ownerId = lit ''o1'',
                       ag_filename = lit ''a.png'', ag_action = lit ''view'',
                       ag_issuedAt = 1700000000000, ag_expiresAt = 1700003600000\<rparr>)"
    by (simp only: signed_url_data.select_convs not_False_eq_True)
  from first second fallback nometa noop spec' show ?thesis by blast
qed

text \<open>
  Claim C2 as stated fails: a first call made while the issuance request fails returns
  the legacy URL it was given, which still satisfies the legacy predicate, and a second call
  on that result, made once the request succeeds, returns a different URL.
\<close>

theorem C2_counterexample:
  "convertToSignedUrl offline_client (Some (lit ''/api/v1/uploads/t1/tasks/o1/a.png?token=abc'')) None
     = Inr (lit ''/api/v1/uploads/t1/tasks/o1/a.png?token=abc'')
   \<and> isOldTokenUrl (Some (lit ''/api/v1/uploads/t1/tasks/o1/a.png?token=abc''))
   \<and> convertToSignedUrl demo_client (Some (lit ''/api/v1/uploads/t1/tasks/o1/a.png?token=abc'')) None
     = Inr (lit ''https://api.example.com/api/v1/files/secure/cGF5bG9hZA.c2ln'')
   \<and> lit ''https://api.example.com/api/v1/files/secure/cGF5bG9hZA.c2ln''
       \<noteq> lit ''/api/v1/uploads/t1/tasks/o1/a.png?token=abc''"
  by (simp add: lit_def isOldTokenUrl_def extract_eval convertToSignedUrl_def convert_attempt_def
      offline_client_def demo_client_def)

subsection \<open>split, join and indexOf on URLs\<close>

lemma js_split_nonempty: "js_split c s \<noteq> []"
  by (induction s) (auto split: list.splits)

lemma js_split_no_sep: "c \<notin> set s \<Longrightarrow> js_split c s = [s]"
  by (induction s) auto

lemma js_split_append: "js_split c (a @ c # b) = js_split c a @ js_split c b"
proof (induction a)
  case Nil
  show ?case by simp
next
  case (Cons x a)
  obtain p ps where "js_split c a = p # ps"
    using js_split_nonempty [of c a] by (cases "js_split c a") auto
  with Cons show ?case by simp
qed

lemma js_split_join:
  "ps \<noteq> [] \<Longrightarrow> \<forall>p \<in> set ps. c \<notin> set p \<Longrightarrow> js_split c (js_join c ps) = ps"
proof (induction c ps rule: js_join.induct)
  case (1 sep)
  then show ?case by simp
next
  case (2 sep p)
  then show ?case by (simp add: js_split_no_sep)
next
  case (3 sep p q ps)
  then show ?case by (simp add: js_split_append js_split_no_sep)
qed

lemma js_join_split: "js_join c (js_split c s) = s"
proof (induction s)
  case Nil
  show ?case by simp
next
  case (Cons x s)
  obtain p ps where sp: "js_split c s = p # ps"
    using js_split_nonempty [of c s] by (cases "js_split c s") auto
  show ?case
  proof (cases "x = c")
    case True
    with Cons sp show ?thesis by simp
  next
    case False
    with Cons sp show ?thesis by (cases ps) auto
  qed
qed

lemma set_js_join: "x \<in> set (js_join c ps) \<Longrightarrow> x = c \<or> (\<exists>p \<in> set ps. x \<in> set p)"
  by (induction c ps rule: js_join.induct) auto

lemma indexOf_append: "x \<notin> set pre \<Longrightarrow> indexOf (pre @ x # rest) x = int (length pre)"
  by (induction pre) (auto simp add: Let_def)

lemma hd_split_query:
  assumes "63 \<notin> set u" and "q = [] \<or> (\<exists>q'. q = 63 # q')"
  shows "\<exists>rest. js_split 63 (u @ q) = u # rest"
  using assms by (auto simp add: js_split_no_sep js_split_append)

lemma js_startsWith_append: "js_startsWith (p @ s) p"
  by (induction p) auto

lemma js_startsWith_includes: "js_startsWith s p \<Longrightarrow> js_includes s p"
  by (cases s; cases p) auto

lemma js_includes_middle: "js_includes (a @ p @ s) p"
  by (induction a) (auto simp add: js_startsWith_append js_startsWith_includes)

lemma legacy_branch_positional:
  assumes "lit ''uploads'' \<notin> set pre"
    and "\<forall>p \<in> set (pre @ lit ''uploads'' # t # s # ow # f # post). 47 \<notin> set p"
  shows "legacy_branch (js_join 47 (pre @ lit ''uploads'' # t # s # ow # f # post))
     = (case decodeURIComponent f of
          Inl err \<Rightarrow> None
        | Inr fname \<Rightarrow> Some \<lparr>filename = Str fname, scope = Str s, ownerId = Str ow, tenantId = Str t\<rparr>)"
proof -
  let ?parts = "pre @ lit ''uploads'' # t # s # ow # f # post"
  have sp: "js_split 47 (js_join 47 ?parts) = ?parts"
    using assms(2) by (intro js_split_join) auto
  have ix: "indexOf ?parts (lit ''uploads'') = int (length pre)"
    using assms(1) by (rule indexOf_append)
  have nths: "?parts ! nat (int (length pre) + 1) = t" "?parts ! nat (int (length pre) + 2) = s"
    "?parts ! nat (int (length pre) + 3) = ow" "?parts ! nat (int (length pre) + 4) = f"
    by (simp_all add: nth_append nat_add_distrib)
  show ?thesis
    by (cases "decodeURIComponent f")
       (simp_all add: legacy_branch_def sp ix nths Let_def del: nth_append_length_plus)
qed

lemma signed_branch_not_signed:
  "\<not> js_includes u (lit ''/files/secure/'') \<Longrightarrow> signed_branch u = None"
  by (simp add: signed_branch_def)

text \<open>
  Claim C6, as amended. Take a URL whose part before the query string is the segments
  \<open>pre\<close>, \<^verbatim>\<open>uploads\<close>, \<open>t\<close>, \<open>s\<close>, \<open>ow\<close>, \<open>f\<close>, \<open>post\<close>
  joined by slashes, where \<^verbatim>\<open>uploads\<close> is no segment of \<open>pre\<close> and that part does not
  contain \<^verbatim>\<open>/files/secure/\<close>; the query string \<open>q\<close> is empty or starts at the
  first \<^verbatim>\<open>?\<close>. Then \<^verbatim>\<open>extractFileMetadataFromUrl\<close> returns tenantId \<open>t\<close>, scope
  \<open>s\<close>, ownerId \<open>ow\<close> and the percent-decoded \<open>f\<close> as filename when
  \<open>f\<close> is well-formed percent-encoding, and null when it is not.
\<close>

theorem C6_legacy_extraction:
  "(\<forall>p \<in> set (pre @ [t, s, ow, f] @ post). 47 \<notin> set p \<and> 63 \<notin> set p)
   \<and> lit ''uploads'' \<notin> set pre
   \<and> \<not> js_includes (js_join 47 (pre @ lit ''uploads'' # t # s # ow # f # post)) (lit ''/files/secure/'')
   \<and> (q = [] \<or> (\<exists>q'. q = 63 # q'))
   \<longrightarrow>
   extractFileMetadataFromUrl (js_join 47 (pre @ lit ''uploads'' # t # s # ow # f # post) @ q)
     = (case decodeURIComponent f of
          Inl err \<Rightarrow> None
        | Inr fname \<Rightarrow> Some \<lparr>filename = Str fname, scope = Str s, ownerId = Str ow, tenantId = Str t\<rparr>)"
proof
  let ?parts = "pre @ lit ''uploads'' # t # s # ow # f # post"
  let ?u = "js_join 47 ?parts"
  assume a: "(\<forall>p \<in> set (pre @ [t, s, ow, f] @ post). 47 \<notin> set p \<and> 63 \<notin> set p)
   \<and> lit ''uploads'' \<notin> set pre
   \<and> \<not> js_includes ?u (lit ''/files/secure/'')
   \<and> (q = [] \<or> (\<exists>q'. q = 63 # q'))"
  have up: "47 \<notin> set (lit ''uploads'') \<and> 63 \<notin> set (lit ''uploads'')" by (simp add: lit_def)
  with a have segs: "\<forall>p \<in> set ?parts. 47 \<notin> set p \<and> 63 \<notin> set p" by auto
  then have "63 \<notin> set ?u" using set_js_join [of 63 47 ?parts] by auto
  with a obtain rest where sq: "js_split 63 (?u @ q) = ?u # rest"
    using hd_split_query [of ?u q] by blast
  from a have ns: "signed_branch ?u = None" by (simp add: signed_branch_not_signed)
  from a segs have "legacy_branch ?u = (case decodeURIComponent f of
          Inl err \<Rightarrow> None
        | Inr fname \<Rightarrow> Some \<lparr>filename = Str fname, scope = Str s, ownerId = Str ow, tenantId = Str t\<rparr>)"
    by (intro legacy_branch_positional) auto
  with sq ns show "extractFileMetadataFromUrl (?u @ q) = (case decodeURIComponent f of
          Inl err \<Rightarrow> None
        | Inr fname \<Rightarrow> Some \<lparr>filename = Str fname, scope = Str s, ownerId = Str ow, tenantId = Str t\<rparr>)"
    by (simp add: extractFileMetadataFromUrl_def)
qed

text \<open>
  The theorem at the URL of the specification's example.
\<close>

theorem C6_legacy_extraction_witness:
  "extractFileMetadataFromUrl (lit ''https://api.example.com/api/v1/uploads/t1/tasks/o1/report%20final.pdf?token=xyz'')
     = Some \<lparr>filename = Str (lit ''report final.pdf''), scope = Str (lit ''tasks''),
             ownerId = Str (lit ''o1''), tenantId = Str (lit ''t1'')\<rparr>"
proof -
  let ?pre = "[lit ''https:'', [], lit ''api.example.com'', lit ''api'', lit ''v1'']"
  have h: "(\<forall>p \<in> set (?pre @ [lit ''t1'', lit ''tasks'', lit ''o1'', lit ''report%20final.pdf''] @ []). 47 \<notin> set p \<and> 63 \<notin> set p)
   \<and> lit ''uploads'' \<notin> set ?pre
   \<and> \<not> js_includes (js_join 47 (?pre @ lit ''uploads'' # lit ''t1'' # lit ''tasks'' # lit ''o1'' # lit ''report%20final.pdf'' # []))
         (lit ''/files/secure/'')
   \<and> (lit ''?token=xyz'' = [] \<or> (\<exists>q'. lit ''?token=xyz'' = 63 # q'))"
    by (simp add: lit_def)
  have d: "decodeURIComponent (lit ''report%20final.pdf'') = Inr (lit ''report final.pdf'')"
    by (simp add: lit_def decodeURIComponent_def hex_val_def)
  have u: "js_join 47 (?pre @ lit ''uploads'' # lit ''t1'' # lit ''tasks'' # lit ''o1'' # lit ''report%20final.pdf'' # []) @ lit ''?token=xyz''
     = lit ''https://api.example.com/api/v1/uploads/t1/tasks/o1/report%20final.pdf?token=xyz''"
    by (simp add: lit_def)
  from C6_legacy_extraction [where pre = ?pre and t = "lit ''t1''" and s = "lit ''tasks''" and ow = "lit ''o1''"
        and f = "lit ''report%20final.pdf''" and post = "[]" and q = "lit ''?token=xyz''", rule_format, OF h]
  show ?thesis unfolding u d by simp
qed

text \<open>
  Claim C6 as stated fails: the path below has \<^verbatim>\<open>uploads\<close> followed by four segments,
  and the function returns null, because \<^verbatim>\<open>100%.pdf\<close> is not well-formed
  percent-encoding and the \<^verbatim>\<open>URIError\<close> is caught.
\<close>

theorem C6_counterexample:
  "js_split 47 (lit ''/api/v1/uploads/t1/tasks/o1/100%.pdf'')
     = [[], lit ''api'', lit ''v1'', lit ''uploads'', lit ''t1'', lit ''tasks'', lit ''o1'', lit ''100%.pdf'']
   \<and> extractFileMetadataFromUrl (lit ''/api/v1/uploads/t1/tasks/o1/100%.pdf?token=xyz'') = None"
  by (simp add: lit_def extract_eval)

subsection \<open>The signed-URL branch\<close>

text \<open>The parser equations at a numeral bound, for evaluation.\<close>

lemmas parse_numeral =
  parse_value.simps(2) [of "pred_numeral k" for k, unfolded numeral_eq_Suc [symmetric]]
  parse_elements.simps(2) [of "pred_numeral k" for k, unfolded numeral_eq_Suc [symmetric]]
  parse_members.simps(2) [of "pred_numeral k" for k, unfolded numeral_eq_Suc [symmetric]]

lemma parse_value_defined: "parse_value n s = Parsed v r \<Longrightarrow> v \<noteq> Undefined"
  by (cases n) (auto split: list.splits if_splits parsed.splits option.splits)

lemma JSON_parse_defined:
  assumes "JSON_parse s = Inr v"
  shows "v \<noteq> Undefined"
proof (cases "parse_value (2 * length s + 1) s")
  case (Parsed x r)
  with assms have "x = v"
    by (simp add: JSON_parse_def del: parse_value.simps split: if_splits)
  moreover have "x \<noteq> Undefined" using Parsed by (rule parse_value_defined)
  ultimately show ?thesis by simp
next
  case Malformed
  with assms show ?thesis by (simp add: JSON_parse_def del: parse_value.simps)
next
  case OutOfFuel
  with assms show ?thesis by (simp add: JSON_parse_def del: parse_value.simps)
qed

lemma js_get_value: "v \<noteq> Null \<Longrightarrow> v \<noteq> Undefined \<Longrightarrow> \<exists>x. js_get v k = Inr x"
  by (cases v) (auto split: option.splits)

lemma js_get_absent: "k \<notin> fst ` set ms \<Longrightarrow> js_get (Obj ms) k = Inr Undefined"
  by (simp add: map_of_eq_None_iff [THEN iffD2])

lemma hd_split_dot:
  assumes "46 \<notin> set p" and "sg = [] \<or> (\<exists>x. sg = 46 # x)"
  shows "\<exists>rest. js_split 46 (p @ sg) = p # rest"
  using assms by (auto simp add: js_split_no_sep js_split_append)

lemma decode_token_payload:
  assumes "p \<noteq> []" and "46 \<notin> set p" and "sg = [] \<or> (\<exists>x. sg = 46 # x)"
    and "atob (map (\<lambda>c. if c = 95 then 47 else c) (map (\<lambda>c. if c = 45 then 43 else c) p)) = Inr json"
    and "JSON_parse json = Inr v"
    and "js_get v (lit ''filename'') = Inr fn" and "js_get v (lit ''scope'') = Inr sc"
    and "js_get v (lit ''ownerId'') = Inr ow" and "js_get v (lit ''tenantId'') = Inr tn"
  shows "decode_token (p @ sg) = Inr (Some \<lparr>filename = fn, scope = sc, ownerId = ow, tenantId = tn\<rparr>)"
proof -
  obtain rest where "js_split 46 (p @ sg) = p # rest"
    using hd_split_dot [OF assms(2,3)] by blast
  with assms show ?thesis by (simp add: decode_token_def)
qed

lemma decode_token_null:
  assumes "p \<noteq> []" and "46 \<notin> set p" and "sg = [] \<or> (\<exists>x. sg = 46 # x)"
    and "atob (map (\<lambda>c. if c = 95 then 47 else c) (map (\<lambda>c. if c = 45 then 43 else c) p)) = Inr json"
    and "JSON_parse json = Inr Null"
  shows "decode_token (p @ sg) = Inl TypeError"
proof -
  obtain rest where "js_split 46 (p @ sg) = p # rest"
    using hd_split_dot [OF assms(2,3)] by blast
  with assms show ?thesis by (simp add: decode_token_def)
qed

lemma signed_branch_token:
  assumes "lit ''secure'' \<notin> set (js_split 47 pre)"
  shows "signed_branch (pre @ lit ''/files/secure/'' @ tok)
     = (case decode_token tok of
          Inl decodeError \<Rightarrow> Some None
        | Inr (Some m) \<Rightarrow> Some (Some m)
        | Inr None \<Rightarrow> None)"
proof -
  let ?u = "pre @ lit ''/files/secure/'' @ tok"
  let ?front = "js_split 47 pre @ [lit ''files'']"
  have inc: "js_includes ?u (lit ''/files/secure/'')" by (rule js_includes_middle)
  have u: "?u = pre @ 47 # (lit ''files'' @ 47 # (lit ''secure'' @ 47 # tok))"
    by (simp add: lit_def)
  have parts: "js_split 47 ?u = ?front @ lit ''secure'' # js_split 47 tok"
    unfolding u by (simp add: js_split_append js_split_no_sep lit_def)
  have "lit ''secure'' \<notin> set ?front" using assms by (simp add: lit_def)
  then have ix: "indexOf (js_split 47 ?u) (lit ''secure'') = int (length ?front)"
    unfolding parts by (rule indexOf_append)
  have len: "int (length (js_split 47 ?u)) > int (length ?front) + 1"
    unfolding parts using js_split_nonempty [of 47 tok] by (cases "js_split 47 tok") auto
  have dr: "drop (nat (int (length ?front) + 1)) (js_split 47 ?u) = js_split 47 tok"
    unfolding parts by (simp add: nat_add_distrib)
  show ?thesis
    using inc len
    by (simp only: signed_branch_def Let_def ix dr js_join_split) simp
qed

text \<open>
  Claim C9, as amended. Take a URL \<open>pre\<close> \<^verbatim>\<open>/files/secure/\<close> \<open>p\<close> \<open>sg\<close>
  \<open>q\<close>: no \<^verbatim>\<open>?\<close> before the query string \<open>q\<close>, no segment \<^verbatim>\<open>secure\<close>
  in \<open>pre\<close>, and \<open>p\<close> the non-empty payload segment of the token (the part before
  its first dot). If \<open>p\<close>, with \<^verbatim>\<open>-\<close> and \<^verbatim>\<open>_\<close> replaced, decodes under
  \<^verbatim>\<open>atob\<close> to a text that \<^verbatim>\<open>JSON.parse\<close> accepts with value \<open>v\<close>, then: when
  \<open>v\<close> is not \<^verbatim>\<open>null\<close> the function returns the object of the four properties
  \<^verbatim>\<open>filename\<close>, \<^verbatim>\<open>scope\<close>, \<^verbatim>\<open>ownerId\<close>, \<^verbatim>\<open>tenantId\<close> of \<open>v\<close> as they
  are read, without a check of their presence; when \<open>v\<close> is \<^verbatim>\<open>null\<close> it returns
  null. A property that an object payload lacks reads as \<^verbatim>\<open>undefined\<close>.
\<close>

theorem C9_signed_extraction:
  "63 \<notin> set pre \<and> lit ''secure'' \<notin> set (js_split 47 pre)
   \<and> p \<noteq> [] \<and> 46 \<notin> set p \<and> 63 \<notin> set p
   \<and> 63 \<notin> set sg \<and> (sg = [] \<or> (\<exists>x. sg = 46 # x))
   \<and> (q = [] \<or> (\<exists>q'. q = 63 # q'))
   \<and> atob (map (\<lambda>c. if c = 95 then 47 else c) (map (\<lambda>c. if c = 45 then 43 else c) p)) = Inr json
   \<and> JSON_parse json = Inr v
   \<longrightarrow>
   (v \<noteq> Null \<longrightarrow>
      (\<exists>fn sc ow tn.
          js_get v (lit ''filename'') = Inr fn \<and> js_get v (lit ''scope'') = Inr sc
          \<and> js_get v (lit ''ownerId'') = Inr ow \<and> js_get v (lit ''tenantId'') = Inr tn
          \<and> extractFileMetadataFromUrl (pre @ lit ''/files/secure/'' @ p @ sg @ q)
              = Some \<lparr>filename = fn, scope = sc, ownerId = ow, tenantId = tn\<rparr>))
   \<and> (v = Null \<longrightarrow> extractFileMetadataFromUrl (pre @ lit ''/files/secure/'' @ p @ sg @ q) = None)
   \<and> (\<forall>ms k. v = Obj ms \<and> k \<notin> fst ` set ms \<longrightarrow> js_get v k = Inr Undefined)"
proof (intro impI conjI allI)
  let ?u = "pre @ lit ''/files/secure/'' @ p @ sg"
  assume a: "63 \<notin> set pre \<and> lit ''secure'' \<notin> set (js_split 47 pre)
   \<and> p \<noteq> [] \<and> 46 \<notin> set p \<and> 63 \<notin> set p
   \<and> 63 \<notin> set sg \<and> (sg = [] \<or> (\<exists>x. sg = 46 # x))
   \<and> (q = [] \<or> (\<exists>q'. q = 63 # q'))
   \<and> atob (map (\<lambda>c. if c = 95 then 47 else c) (map (\<lambda>c. if c = 45 then 43 else c) p)) = Inr json
   \<and> JSON_parse json = Inr v"
  then have "63 \<notin> set ?u" by (simp add: lit_def)
  with a obtain rest where "js_split 63 (?u @ q) = ?u # rest"
    using hd_split_query [of ?u q] by blast
  then have ex: "extractFileMetadataFromUrl (pre @ lit ''/files/secure/'' @ p @ sg @ q)
      = (case signed_branch ?u of Some r \<Rightarrow> r | None \<Rightarrow> legacy_branch ?u)"
    by (simp add: extractFileMetadataFromUrl_def)
  from a have sb: "signed_branch ?u = (case decode_token (p @ sg) of
          Inl decodeError \<Rightarrow> Some None
        | Inr (Some m) \<Rightarrow> Some (Some m)
        | Inr None \<Rightarrow> None)"
    using signed_branch_token [of pre "p @ sg"] by simp
  {
    assume nn: "v \<noteq> Null"
    from a have "JSON_parse json = Inr v" by simp
    then have "v \<noteq> Undefined" by (rule JSON_parse_defined)
    with nn obtain fn sc ow tn where g: "js_get v (lit ''filename'') = Inr fn"
        "js_get v (lit ''scope'') = Inr sc" "js_get v (lit ''ownerId'') = Inr ow"
        "js_get v (lit ''tenantId'') = Inr tn"
      using js_get_value [of v] by metis
    with a have "decode_token (p @ sg) = Inr (Some \<lparr>filename = fn, scope = sc, ownerId = ow, tenantId = tn\<rparr>)"
      by (intro decode_token_payload) auto
    with ex sb g show "\<exists>fn sc ow tn.
          js_get v (lit ''filename'') = Inr fn \<and> js_get v (lit ''scope'') = Inr sc
          \<and> js_get v (lit ''ownerId'') = Inr ow \<and> js_get v (lit ''tenantId'') = Inr tn
          \<and> extractFileMetadataFromUrl (pre @ lit ''/files/secure/'' @ p @ sg @ q)
              = Some \<lparr>filename = fn, scope = sc, ownerId = ow, tenantId = tn\<rparr>"
      by simp
  }
  {
    assume "v = Null"
    with a have "decode_token (p @ sg) = Inl TypeError"
      by (intro decode_token_null) auto
    with ex sb show "extractFileMetadataFromUrl (pre @ lit ''/files/secure/'' @ p @ sg @ q) = None"
      by simp
  }
  {
    fix ms k
    assume "v = Obj ms \<and> k \<notin> fst ` set ms"
    then have "v = Obj ms" and "k \<notin> fst ` set ms" by simp_all
    then show "js_get v k = Inr Undefined" using js_get_absent [of k ms] by (simp del: js_get.simps)
  }
qed

text \<open>Evaluation of \<^verbatim>\<open>atob\<close> and \<^verbatim>\<open>JSON.parse\<close> on concrete strings.\<close>

lemmas json_eval = atob_def strip_padding_def b64_val_def ascii_whitespace_def JSON_parse_def
  skip_ws_def json_ws_def is_digit_def escape_char_def lex_number_def lex_fraction_def
  lex_exponent_def hex_val_def parse_numeral

lemma demo_payload_partial:
  "atob (lit ''eyJmaWxlbmFtZSI6ImEucG5nIn0'') = Inr (lit ''{\"filename\":\"a.png\"}'')
   \<and> JSON_parse (lit ''{\"filename\":\"a.png\"}'') = Inr (Obj [(lit ''filename'', Str (lit ''a.png''))])"
  by (simp add: lit_def json_eval)

text \<open>
  The theorem at a token whose payload is \<^verbatim>\<open>{"filename":"a.png"}\<close>: the three other
  fields are \<^verbatim>\<open>undefined\<close>.
\<close>

theorem C9_signed_extraction_witness:
  "extractFileMetadataFromUrl (lit ''https://api.example.com/api/v1/files/secure/eyJmaWxlbmFtZSI6ImEucG5nIn0.c2ln'')
     = Some \<lparr>filename = Str (lit ''a.png''), scope = Undefined, ownerId = Undefined, tenantId = Undefined\<rparr>"
proof -
  let ?v = "Obj [(lit ''filename'', Str (lit ''a.png''))]"
  have h: "63 \<notin> set (lit ''https://api.example.com/api/v1'')
     \<and> lit ''secure'' \<notin> set (js_split 47 (lit ''https://api.example.com/api/v1''))
     \<and> lit ''eyJmaWxlbmFtZSI6ImEucG5nIn0'' \<noteq> [] \<and> 46 \<notin> set (lit ''eyJmaWxlbmFtZSI6ImEucG5nIn0'')
     \<and> 63 \<notin> set (lit ''eyJmaWxlbmFtZSI6ImEucG5nIn0'')
     \<and> 63 \<notin> set (lit ''.c2ln'') \<and> (lit ''.c2ln'' = [] \<or> (\<exists>x. lit ''.c2ln'' = 46 # x))
     \<and> (([]::jsstring) = [] \<or> (\<exists>q'. ([]::jsstring) = 63 # q'))
     \<and> atob (map (\<lambda>c. if c = 95 then 47 else c) (map (\<lambda>c. if c = 45 then 43 else c) (lit ''eyJmaWxlbmFtZSI6ImEucG5nIn0'')))
         = Inr (lit ''{\"filename\":\"a.png\"}'')
     \<and> JSON_parse (lit ''{\"filename\":\"a.png\"}'') = Inr ?v"
    using demo_payload_partial by (simp add: lit_def)
  have u: "lit ''https://api.example.com/api/v1'' @ lit ''/files/secure/'' @ lit ''eyJmaWxlbmFtZSI6ImEucG5nIn0'' @ lit ''.c2ln'' @ []
     = lit ''https://api.example.com/api/v1/files/secure/eyJmaWxlbmFtZSI6ImEucG5nIn0.c2ln''"
    by (simp add: lit_def)
  have g: "js_get ?v (lit ''filename'') = Inr (Str (lit ''a.png'')) \<and> js_get ?v (lit ''scope'') = Inr Undefined
     \<and> js_get ?v (lit ''ownerId'') = Inr Undefined \<and> js_get ?v (lit ''tenantId'') = Inr Undefined"
    by (simp add: lit_def)
  from C9_signed_extraction [where pre = "lit ''https://api.example.com/api/v1''"
        and p = "lit ''eyJmaWxlbmFtZSI6ImEucG5nIn0''" and sg = "lit ''.c2ln''" and q = "[]"
        and json = "lit ''{\"filename\":\"a.png\"}''" and v = ?v, rule_format, OF h, THEN conjunct1]
  show ?thesis unfolding u using g by auto
qed

text \<open>
  Claim C9 as stated fails: the payload segment \<^verbatim>\<open>bnVsbA\<close> decodes to the JSON text
  \<^verbatim>\<open>null\<close>, which parses, and the function returns null (reading a property of
  \<^verbatim>\<open>null\<close> throws, and the inner \<^verbatim>\<open>catch\<close> returns null).
\<close>

theorem C9_counterexample:
  "atob (lit ''bnVsbA'') = Inr (lit ''null'') \<and> JSON_parse (lit ''null'') = Inr Null
   \<and> extractFileMetadataFromUrl (lit ''https://api.example.com/api/v1/files/secure/bnVsbA.c2ln'') = None"
  by (simp add: lit_def json_eval extract_eval)

subsection \<open>Signed URLs of the issuer\<close>

text \<open>Evaluation of the token codec on concrete grants.\<close>

lemma decimal_nat_numeral:
  "decimal_nat (numeral k) =
     (if (numeral k :: nat) < 10 then [48 + numeral k]
      else decimal_nat (numeral k div 10) @ [48 + numeral k mod 10])"
  "decimal_nat (Suc 0) = [49]"
  "decimal_nat 0 = [48]"
  by (subst decimal_nat.simps, simp)+

lemmas codec_eval = issue_def encode_def payload_json_def json_quote_def decimal_def base64url_def
  utf8_encode_def utf8_of_def b64url_char_def high_surrogate_def low_surrogate_def
  decimal_nat_numeral Let_def

lemma greek_url:
  "issue (\<lambda>p. [1, 2, 3]) 1700000000000 greek_grant
     = Inr \<lparr>sd_url = lit ''/files/secure/eyJ0ZW5hbnRJZCI6InQxIiwic2NvcGUiOiJ0YXNrcyIsIm93bmVySWQiOiJvMSIsImZpbGVuYW1lIjoizrEucG5nIiwiYWN0aW9uIjoidmlldyIsImlzc3VlZEF0IjoxNzAwMDAwMDAwMDAwLCJleHBpcmVzQXQiOjE3MDAwMDM2MDAwMDB9.AQID'',
            sd_expiresAt = 1700003600000\<rparr>"
  by (simp add: greek_grant_def lit_def codec_eval)

lemma greek_extract:
  "extractFileMetadataFromUrl (lit ''/files/secure/eyJ0ZW5hbnRJZCI6InQxIiwic2NvcGUiOiJ0YXNrcyIsIm93bmVySWQiOiJvMSIsImZpbGVuYW1lIjoizrEucG5nIiwiYWN0aW9uIjoidmlldyIsImlzc3VlZEF0IjoxNzAwMDAwMDAwMDAwLCJleHBpcmVzQXQiOjE3MDAwMDM2MDAwMDB9.AQID'')
     = Some \<lparr>filename = Str (206 # 177 # lit ''.png''), scope = Str (lit ''tasks''),
             ownerId = Str (lit ''o1''), tenantId = Str (lit ''t1'')\<rparr>"
  by (simp add: lit_def json_eval extract_eval)

text \<open>The grant of the specification's example, whose fields are ASCII, is recovered.\<close>

lemma ascii_grant_recovered:
  "issue (\<lambda>p. [1, 2, 3]) 1700000000000
      \<lparr>g_tenantId = lit ''t1'', g_scope = Some (lit ''tasks''), g_ownerId = lit ''o1'',
       g_filename = Some (lit ''a.png''), g_action = lit ''view'', g_expiresInMinutes = None\<rparr>
     = Inr \<lparr>sd_url = lit ''/files/secure/eyJ0ZW5hbnRJZCI6InQxIiwic2NvcGUiOiJ0YXNrcyIsIm93bmVySWQiOiJvMSIsImZpbGVuYW1lIjoiYS5wbmciLCJhY3Rpb24iOiJ2aWV3IiwiaXNzdWVkQXQiOjE3MDAwMDAwMDAwMDAsImV4cGlyZXNBdCI6MTcwMDAwMzYwMDAwMH0.AQID'',
            sd_expiresAt = 1700003600000\<rparr>
   \<and> extractFileMetadataFromUrl (lit ''/files/secure/eyJ0ZW5hbnRJZCI6InQxIiwic2NvcGUiOiJ0YXNrcyIsIm93bmVySWQiOiJvMSIsImZpbGVuYW1lIjoiYS5wbmciLCJhY3Rpb24iOiJ2aWV3IiwiaXNzdWVkQXQiOjE3MDAwMDAwMDAwMDAsImV4cGlyZXNBdCI6MTcwMDAwMzYwMDAwMH0.AQID'')
     = Some \<lparr>filename = Str (lit ''a.png''), scope = Str (lit ''tasks''),
             ownerId = Str (lit ''o1''), tenantId = Str (lit ''t1'')\<rparr>"
  by (simp add: lit_def codec_eval json_eval extract_eval)

text \<open>
  Claim C7 at a grant whose filename is \<^verbatim>\<open>U+03B1.png\<close>. The issuer writes the name
  into the token as UTF-8 (octets CE B1); \<^verbatim>\<open>atob\<close> returns one code unit per octet,
  and \<^verbatim>\<open>extractFileMetadataFromUrl\<close> parses them as they are: the filename it returns
  is the two code units 206, 177 followed by \<^verbatim>\<open>.png\<close>, not the code unit 945 of the
  grant. The other three fields are recovered.
\<close>

theorem C7_greek_filename_not_recovered:
  "g_filename greek_grant = Some (945 # lit ''.png'')
   \<and> (\<exists>d. issue (\<lambda>p. [1, 2, 3]) 1700000000000 greek_grant = Inr d
          \<and> extractFileMetadataFromUrl (sd_url d)
              = Some \<lparr>filename = Str (206 # 177 # lit ''.png''), scope = Str (lit ''tasks''),
                      ownerId = Str (lit ''o1''), tenantId = Str (lit ''t1'')\<rparr>)"
proof (intro conjI exI)
  show "g_filename greek_grant = Some (945 # lit ''.png'')"
    by (simp add: greek_grant_def)
  show "issue (\<lambda>p. [1, 2, 3]) 1700000000000 greek_grant
     = Inr \<lparr>sd_url = lit ''/files/secure/eyJ0ZW5hbnRJZCI6InQxIiwic2NvcGUiOiJ0YXNrcyIsIm93bmVySWQiOiJvMSIsImZpbGVuYW1lIjoizrEucG5nIiwiYWN0aW9uIjoidmlldyIsImlzc3VlZEF0IjoxNzAwMDAwMDAwMDAwLCJleHBpcmVzQXQiOjE3MDAwMDM2MDAwMDB9.AQID'',
            sd_expiresAt = 1700003600000\<rparr>"
    by (rule greek_url)
  show "extractFileMetadataFromUrl (sd_url \<lparr>sd_url = lit ''/files/secure/eyJ0ZW5hbnRJZCI6InQxIiwic2NvcGUiOiJ0YXNrcyIsIm93bmVySWQiOiJvMSIsImZpbGVuYW1lIjoizrEucG5nIiwiYWN0aW9uIjoidmlldyIsImlzc3VlZEF0IjoxNzAwMDAwMDAwMDAwLCJleHBpcmVzQXQiOjE3MDAwMDM2MDAwMDB9.AQID'',
            sd_expiresAt = 1700003600000\<rparr>)
     = Some \<lparr>filename = Str (206 # 177 # lit ''.png''), scope = Str (lit ''tasks''),
             ownerId = Str (lit ''o1''), tenantId = Str (lit ''t1'')\<rparr>"
    using greek_extract by (simp only: signed_url_data.simps)
qed

text \<open>
  The filename extracted from the signed URL of that grant is not the filename of the
  grant.
\<close>

theorem C7_greek_filename_not_recovered_witness:
  "\<exists>d m. issue (\<lambda>p. [1, 2, 3]) 1700000000000 greek_grant = Inr d
      \<and> extractFileMetadataFromUrl (sd_url d) = Some m
      \<and> Some (filename m) \<noteq> map_option Str (g_filename greek_grant)"
proof -
  from C7_greek_filename_not_recovered obtain d where
    d: "issue (\<lambda>p. [1, 2, 3]) 1700000000000 greek_grant = Inr d"
      "extractFileMetadataFromUrl (sd_url d)
        = Some \<lparr>filename = Str (206 # 177 # lit ''.png''), scope = Str (lit ''tasks''),
                ownerId = Str (lit ''o1''), tenantId = Str (lit ''t1'')\<rparr>"
    and f: "g_filename greek_grant = Some (945 # lit ''.png'')"
    by blast
  have "Some (filename \<lparr>filename = Str (206 # 177 # lit ''.png''), scope = Str (lit ''tasks''),
                ownerId = Str (lit ''o1''), tenantId = Str (lit ''t1'')\<rparr>)
      \<noteq> map_option Str (g_filename greek_grant)"
    by (simp add: f)
  with d show ?thesis by blast
qed

end
